theory Spec2Isabelle
  imports Main
begin

section \<open>The view engine of modules/core/src/compiler/view.js\<close>

text \<open>
  A shallow embedding of \<^verbatim>\<open>view.js\<close>: the classes \<^verbatim>\<open>View\<close>, \<^verbatim>\<open>ProtoView\<close>,
  \<^verbatim>\<open>ElementPropertyMemento\<close>, \<^verbatim>\<open>DirectivePropertyMemento\<close>,
  \<^verbatim>\<open>DirectivePropertyGroupMemento\<close> and \<^verbatim>\<open>PropertyUpdate\<close>.

  Conventions of the embedding.
  \<^item> A method that mutates \<^verbatim>\<open>this\<close> takes the object and returns the updated object.
  \<^item> A JavaScript exception is a value of type \<open>error\<close>. Reading a property of
    \<^verbatim>\<open>null\<close> or \<^verbatim>\<open>undefined\<close>, and calling a method that the receiver does not have,
    is \<open>TypeError\<close>; a \<^verbatim>\<open>throw new BaseException(msg)\<close> is \<open>BaseException msg\<close>.
  \<^item> \<^verbatim>\<open>null\<close> and \<^verbatim>\<open>undefined\<close> in a typed field are \<open>None\<close> (the source tells them
    apart nowhere: \<^verbatim>\<open>isPresent\<close> and \<^verbatim>\<open>isBlank\<close> treat both alike).
  \<^item> The collaborators that are not part of view.js (element injectors, view ports,
    light DOM, record ranges, setters, directive instances) are values that name the
    object; a method call on one of them that has an effect is recorded, in order, in a
    list of \<open>call\<close>s that the embedding returns next to the new state. What the
    collaborator does inside the call is not part of view.js: a recorded call is taken
    to return.
\<close>

subsection \<open>JavaScript failures and collections\<close>

datatype error = BaseException string | TypeError

text \<open>\<^verbatim>\<open>xs[i]\<close> on a JavaScript array: \<^verbatim>\<open>undefined\<close> out of range, also for a negative index.\<close>

definition js_nth :: "'a list \<Rightarrow> int \<Rightarrow> 'a option" where
  "js_nth xs i = (if 0 \<le> i \<and> i < int (length xs) then Some (xs ! nat i) else None)"

text \<open>
  An ES6 \<^verbatim>\<open>Map\<close> (and a string map) is an association list in insertion order;
  \<^verbatim>\<open>MapWrapper.set\<close> overwrites the value of a key that is present and appends a new key.
\<close>

fun MapWrapper_set :: "('k \<times> 'v) list \<Rightarrow> 'k \<Rightarrow> 'v \<Rightarrow> ('k \<times> 'v) list" where
  "MapWrapper_set [] k v = [(k, v)]"
| "MapWrapper_set ((k', v') # m) k v =
     (if k' = k then (k, v) # m else (k', v') # MapWrapper_set m k v)"

definition MapWrapper_contains :: "('k \<times> 'v) list \<Rightarrow> 'k \<Rightarrow> bool" where
  "MapWrapper_contains m k = (map_of m k \<noteq> None)"

definition MapWrapper_get :: "('k \<times> 'v) list \<Rightarrow> 'k \<Rightarrow> 'v option" where
  "MapWrapper_get m k = map_of m k"

definition MapWrapper_size :: "('k \<times> 'v) list \<Rightarrow> nat" where
  "MapWrapper_size m = length m"

subsection \<open>The DOM\<close>

text \<open>
  Modelled from the spec: the DOM layer (\<^verbatim>\<open>facade/dom\<close>) is not in view.js; the spec
  lists what is consumed of it: clone node, query descendants by marker class,
  first-child/next-sibling traversal, attach class, add event listener, set text
  content. A node is a tree value; a clone is the structurally equal tree, and whether
  a clone was made is visible in the recorded calls. The content fragment of a template
  element is not part of its descendants.
\<close>

datatype node =
    TextNode string
  | Element string "string list" "node list"
  | TemplateElement "string list" "node list"

fun DOM_classList :: "node \<Rightarrow> string list option" where
  "DOM_classList (TextNode s) = None"
| "DOM_classList (Element tag cls kids) = Some cls"
| "DOM_classList (TemplateElement cls frag) = Some cls"

definition DOM_hasClass :: "node \<Rightarrow> string \<Rightarrow> error + bool" where
  "DOM_hasClass el c = (case DOM_classList el of None \<Rightarrow> Inl TypeError | Some cls \<Rightarrow> Inr (c \<in> set cls))"

fun DOM_addClass :: "node \<Rightarrow> string \<Rightarrow> error + node" where
  "DOM_addClass (TextNode s) c = Inl TypeError"
| "DOM_addClass (Element tag cls kids) c =
     Inr (Element tag (if c \<in> set cls then cls else cls @ [c]) kids)"
| "DOM_addClass (TemplateElement cls frag) c =
     Inr (TemplateElement (if c \<in> set cls then cls else cls @ [c]) frag)"

definition DOM_clone :: "node \<Rightarrow> node" where
  "DOM_clone n = n"

text \<open>The child nodes of a node; a template element keeps its children in its content fragment.\<close>

fun DOM_childNodes :: "node \<Rightarrow> node list" where
  "DOM_childNodes (TextNode s) = []"
| "DOM_childNodes (Element tag cls kids) = kids"
| "DOM_childNodes (TemplateElement cls frag) = []"

text \<open>\<^verbatim>\<open>el.content\<close>: the children of the content fragment, \<^verbatim>\<open>undefined\<close> for other nodes.\<close>

fun DOM_content :: "node \<Rightarrow> node list option" where
  "DOM_content (TemplateElement cls frag) = Some frag"
| "DOM_content n = None"

text \<open>\<^verbatim>\<open>DOM.templateAwareRoot(el)\<close> followed by the enumeration of its children.\<close>

fun DOM_templateAwareChildren :: "node \<Rightarrow> node list" where
  "DOM_templateAwareChildren (TemplateElement cls frag) = frag"
| "DOM_templateAwareChildren n = DOM_childNodes n"

text \<open>The elements of class \<open>c\<close> in a subtree, the root included, in document order.\<close>

fun elementsOfClass :: "string \<Rightarrow> node \<Rightarrow> node list" where
  "elementsOfClass c (TextNode s) = []"
| "elementsOfClass c (Element tag cls kids) =
     (if c \<in> set cls then [Element tag cls kids] else []) @ concat (map (elementsOfClass c) kids)"
| "elementsOfClass c (TemplateElement cls frag) =
     (if c \<in> set cls then [TemplateElement cls frag] else [])"

text \<open>
  \<^verbatim>\<open>DOM.getElementsByClassName(el, c)\<close>: the proper descendants of \<open>el\<close> of class \<open>c\<close>;
  a text node has no such method.
\<close>

definition DOM_getElementsByClassName :: "node \<Rightarrow> string \<Rightarrow> error + node list" where
  "DOM_getElementsByClassName el c =
     (case DOM_classList el of
        None \<Rightarrow> Inl TypeError
      | Some cls \<Rightarrow> Inr (concat (map (elementsOfClass c) (DOM_childNodes el))))"

text \<open>\<^verbatim>\<open>DOM.querySelectorAll(fragment, '.' + c)\<close> on a content fragment given by its children.\<close>

definition DOM_querySelectorAll :: "node list \<Rightarrow> string \<Rightarrow> node list" where
  "DOM_querySelectorAll frag c = concat (map (elementsOfClass c) frag)"

definition NG_BINDING_CLASS :: string where
  "NG_BINDING_CLASS = ''ng-binding''"

subsection \<open>Collaborators: injectors, values, directives\<close>

text \<open>
  Modelled from the spec: \<^verbatim>\<open>ProtoElementInjector\<close> and \<^verbatim>\<open>ElementInjector\<close>
  (\<^verbatim>\<open>./element_injector\<close>) are not in view.js. A proto element injector has a parent
  and an index; \<^verbatim>\<open>instantiate(parent, host)\<close> yields the live element injector, which
  is named here by what it was instantiated from.
\<close>

datatype protoElementInjector =
  ProtoElementInjector (pei_parent: "protoElementInjector option") (pei_index: int)
    (pei_bindings: "string list") (pei_firstBindingIsComponent: bool)

datatype elementInjector =
  ElementInjector (ei_proto: protoElementInjector) (ei_parent: "elementInjector option")
    (ei_host: "elementInjector option")

definition ProtoElementInjector_instantiate ::
  "protoElementInjector \<Rightarrow> elementInjector option \<Rightarrow> elementInjector option \<Rightarrow> elementInjector" where
  "ProtoElementInjector_instantiate p parent host = ElementInjector p parent host"

text \<open>The application injector (\<^verbatim>\<open>di/di\<close>) and the child made by \<^verbatim>\<open>createChild(services)\<close>.\<close>

datatype injector = Injector nat | ChildInjector injector "string list"

text \<open>
  A JavaScript value: a record's current and previous value, a binding context.
  \<open>Null\<close> stands for \<^verbatim>\<open>null\<close> and for \<^verbatim>\<open>undefined\<close>, which view.js treats alike.
  \<open>Object n\<close> is a plain object, named by a number, with none of the methods that
  view.js calls. \<open>Component ei\<close> is what \<^verbatim>\<open>ei.getComponent()\<close> returns;
  \<open>ContextWithVariableBindings parent locals\<close> is the object of that class
  (\<^verbatim>\<open>change_detection\<close>) with its parent context and its local variables.
\<close>

datatype jsval =
    Null
  | Boolean bool
  | Number int
  | String string
  | Object nat
  | Component elementInjector
  | ContextWithVariableBindings jsval "(string \<times> jsval) list"

fun isPresent :: "jsval \<Rightarrow> bool" where
  "isPresent Null = False"
| "isPresent v = True"

text \<open>
  A directive instance as \<^verbatim>\<open>ElementInjector.getAtIndex\<close> returns it: the object, and
  whether it is an instance of \<^verbatim>\<open>OnChange\<close> (\<^verbatim>\<open>./interfaces\<close>).
\<close>

datatype directive = Directive (directiveObject: nat) (instanceofOnChange: bool)

text \<open>An expression of the template (\<^verbatim>\<open>AST\<close>) and a setter function (\<^verbatim>\<open>SetterFn\<close>), both opaque.\<close>

datatype ast = AST string

datatype setterFn = SetterFn string

subsection \<open>Mementos\<close>

text \<open>
  \<^verbatim>\<open>ElementPropertyMemento\<close> and \<^verbatim>\<open>DirectivePropertyMemento\<close> with their fields
  (\<^verbatim>\<open>_elementIndex\<close>, \<^verbatim>\<open>_elementInjectorIndex\<close>, \<^verbatim>\<open>_directiveIndex\<close>, \<^verbatim>\<open>_setterName\<close>,
  \<^verbatim>\<open>_setter\<close>). The memento of a record is one of the two, or a plain number: the
  index of a text node.
\<close>

datatype elementPropertyMemento =
  ElementPropertyMemento (epm_elementIndex: int) (epm_setterName: string) (epm_setter: setterFn)

datatype directivePropertyMemento =
  DirectivePropertyMemento (dpm_elementInjectorIndex: int) (dpm_directiveIndex: int)
    (dpm_setterName: string) (dpm_setter: setterFn)

datatype memento =
    DirectiveProperty directivePropertyMemento
  | ElementProperty elementPropertyMemento
  | TextNodeIndex int

text \<open>
  \<^verbatim>\<open>DirectivePropertyGroupMemento\<close>. Objects of this class are compared by identity, so
  the embedding gives each one the number of its allocation, \<open>dpgm_object\<close>, next to
  its two fields.
\<close>

datatype directivePropertyGroupMemento =
  DirectivePropertyGroupMemento (dpgm_object: nat) (dpgm_elementInjectorIndex: int)
    (dpgm_directiveIndex: int)

text \<open>
  The module-level table \<^verbatim>\<open>_groups\<close>: a map from the number \<^verbatim>\<open>id\<close> to the group
  memento interned under it. Every group memento ever made is stored in it and none is
  removed, so the next allocation number is the size of the table.
\<close>

type_synonym groups = "(int \<times> directivePropertyGroupMemento) list"

definition DirectivePropertyGroupMemento_get ::
  "groups \<Rightarrow> directivePropertyMemento \<Rightarrow> directivePropertyGroupMemento option \<times> groups" where
  "DirectivePropertyGroupMemento_get groups0 memento =
     (let elementInjectorIndex = dpm_elementInjectorIndex memento;
          directiveIndex = dpm_directiveIndex memento;
          id = elementInjectorIndex * 100 + directiveIndex;
          groups1 =
            (if \<not> MapWrapper_contains groups0 id
             then MapWrapper_set groups0 id
                    (DirectivePropertyGroupMemento (MapWrapper_size groups0)
                       elementInjectorIndex directiveIndex)
             else groups0)
      in (MapWrapper_get groups1 id, groups1))"

text \<open>\<^verbatim>\<open>DirectivePropertyGroupMemento.directive\<close> is with the view's dispatch, below.\<close>

text \<open>The second memento of a record: the group it is dispatched with.\<close>

datatype groupMemento =
    DirectivePropertyGroup directivePropertyGroupMemento
  | MementoGroup memento

subsection \<open>The record range template\<close>

text \<open>
  Modelled from the spec: \<^verbatim>\<open>ProtoRecordRange\<close> (\<^verbatim>\<open>change_detection\<close>) is not in view.js;
  \<^verbatim>\<open>addRecordsFromAST(expr, memento, groupMemento, isContentWatch?)\<close> registers the
  expression with both mementos. The template is the list of what was registered, in
  order; the live \<^verbatim>\<open>RecordRange\<close> that \<^verbatim>\<open>instantiate\<close> returns is named by its template.
\<close>

datatype protoRecord =
  ProtoRecord (pr_expression: ast) (pr_memento: memento) (pr_groupMemento: "groupMemento option")
    (pr_isContentWatch: "bool option")

type_synonym protoRecordRange = "protoRecord list"

definition addRecordsFromAST ::
  "protoRecordRange \<Rightarrow> ast \<Rightarrow> memento \<Rightarrow> groupMemento option \<Rightarrow> bool option \<Rightarrow> protoRecordRange" where
  "addRecordsFromAST prr expression m g isContentWatch =
     prr @ [ProtoRecord expression m g isContentWatch]"

datatype recordRange = RecordRange protoRecordRange

definition ProtoRecordRange_instantiate :: "protoRecordRange \<Rightarrow> recordRange" where
  "ProtoRecordRange_instantiate prr = RecordRange prr"

subsection \<open>ProtoView and ElementBinder\<close>

text \<open>
  Modelled from the spec: \<^verbatim>\<open>DirectiveMetadata\<close> (\<^verbatim>\<open>./directive_metadata\<close>) and the
  shadow DOM strategy are not in view.js. Of the metadata view.js reads \<^verbatim>\<open>type\<close>,
  \<^verbatim>\<open>annotation.componentServices\<close> and \<^verbatim>\<open>shadowDomStrategy\<close>; of the strategy it calls
  \<^verbatim>\<open>constructLightDom\<close>, whose result may be absent (the source tests
  \<^verbatim>\<open>isPresent(lightDom)\<close>), and \<^verbatim>\<open>attachTemplate\<close>.
\<close>

datatype shadowDomStrategy = EmulatedShadowDom | NativeShadowDom

datatype directiveMetadata =
  DirectiveMetadata (dm_type: string) (dm_componentServices: "string list option")
    (dm_shadowDomStrategy: shadowDomStrategy)

text \<open>
  \<^verbatim>\<open>ProtoView\<close> with the fields of the class, and \<^verbatim>\<open>ElementBinder\<close>
  (\<^verbatim>\<open>./element_binder\<close>) with the fields view.js reads and writes. A nested proto view is
  held by value: the embedding has no cyclic templates.
\<close>

datatype protoView =
  ProtoView
    (element: "node option")
    (elementBinders: "elementBinder list")
    (protoRecordRange: protoRecordRange)
    (variableBindings: "(string \<times> string) list")
    (protoContextLocals: "(string \<times> jsval) list")
    (textNodesWithBindingCount: int)
    (elementsWithBindingCount: int)
    (instantiateInPlace: bool)
    (rootBindingOffset: int)
    (isTemplateElement: bool)
and elementBinder =
  ElementBinder
    (protoElementInjector: "protoElementInjector option")
    (componentDirective: "directiveMetadata option")
    (templateDirective: "directiveMetadata option")
    (textNodeIndices: "int list option")
    (hasElementPropertyBindings: bool)
    (events: "(string \<times> ast) list option")
    (nestedProtoView: "protoView option")

text \<open>
  Modelled from the spec: the constructor of \<^verbatim>\<open>ElementBinder\<close> is not in view.js. It
  keeps its three arguments; the fields that view.js fills in later (text node indices,
  the element property flag, events, the nested proto view) start blank.
\<close>

definition ElementBinder_new ::
  "protoElementInjector option \<Rightarrow> directiveMetadata option \<Rightarrow> directiveMetadata option \<Rightarrow> elementBinder" where
  "ElementBinder_new pei componentDir templateDir =
     ElementBinder pei componentDir templateDir None False None None"

text \<open>The constructor of \<^verbatim>\<open>ProtoView\<close>.\<close>

definition isTemplate :: "node option \<Rightarrow> bool" where
  "isTemplate el = (case el of Some (TemplateElement cls frag) \<Rightarrow> True | _ \<Rightarrow> False)"

definition ProtoView_new :: "node option \<Rightarrow> protoRecordRange \<Rightarrow> error + protoView" where
  "ProtoView_new template prr =
     (case (case template of None \<Rightarrow> Inr False | Some el \<Rightarrow> DOM_hasClass el NG_BINDING_CLASS) of
        Inl e \<Rightarrow> Inl e
      | Inr bound \<Rightarrow>
          Inr (ProtoView template [] prr [] [] 0 0 False (if bound then 1 else 0)
                 (isTemplate template)))"

fun bindVariable :: "string \<Rightarrow> string \<Rightarrow> protoView \<Rightarrow> protoView" where
  "bindVariable contextName templateName (ProtoView el bs prr vb pcl tc ec iip rbo ite) =
     ProtoView el bs prr (MapWrapper_set vb contextName templateName)
       (MapWrapper_set pcl templateName Null) tc ec iip rbo ite"

text \<open>
  \<^verbatim>\<open>bindElement\<close> returns the new binder, which is the last of \<open>elementBinders\<close>; a
  caller that writes to the returned binder writes to that last element.
\<close>

fun bindElement ::
  "protoElementInjector option \<Rightarrow> directiveMetadata option \<Rightarrow> directiveMetadata option \<Rightarrow>
   protoView \<Rightarrow> protoView" where
  "bindElement pei componentDir templateDir (ProtoView el bs prr vb pcl tc ec iip rbo ite) =
     ProtoView el (bs @ [ElementBinder_new pei componentDir templateDir]) prr vb pcl tc ec iip rbo ite"

text \<open>\<^verbatim>\<open>this.elementBinders[this.elementBinders.length-1]\<close>.\<close>

definition lastBinder :: "elementBinder list \<Rightarrow> elementBinder option" where
  "lastBinder bs = js_nth bs (int (length bs) - 1)"

fun bindTextNode :: "int \<Rightarrow> ast \<Rightarrow> protoView \<Rightarrow> error + protoView" where
  "bindTextNode indexInParent expression (ProtoView el bs prr vb pcl tc ec iip rbo ite) =
     (case lastBinder bs of
        None \<Rightarrow> Inl TypeError
      | Some (ElementBinder pei cd td tni hepb evs npv) \<Rightarrow>
          (let tni' = (case tni of None \<Rightarrow> [] | Some l \<Rightarrow> l) @ [indexInParent];
               memento = tc
           in Inr (ProtoView el
                     (bs[length bs - 1 := ElementBinder pei cd td (Some tni') hepb evs npv])
                     (addRecordsFromAST prr expression (TextNodeIndex memento)
                        (Some (MementoGroup (TextNodeIndex memento))) None)
                     vb pcl (tc + 1) ec iip rbo ite)))"

fun bindElementProperty :: "ast \<Rightarrow> string \<Rightarrow> setterFn \<Rightarrow> protoView \<Rightarrow> error + protoView" where
  "bindElementProperty expression setterName setter (ProtoView el bs prr vb pcl tc ec iip rbo ite) =
     (case lastBinder bs of
        None \<Rightarrow> Inl TypeError
      | Some (ElementBinder pei cd td tni hepb evs npv) \<Rightarrow>
          (let ec' = (if \<not> hepb then ec + 1 else ec);
               memento = ElementProperty (ElementPropertyMemento (ec' - 1) setterName setter)
           in Inr (ProtoView el
                     (bs[length bs - 1 := ElementBinder pei cd td tni True evs npv])
                     (addRecordsFromAST prr expression memento (Some (MementoGroup memento)) None)
                     vb pcl tc ec' iip rbo ite)))"

fun bindEvent :: "string \<Rightarrow> ast \<Rightarrow> protoView \<Rightarrow> error + protoView" where
  "bindEvent eventName expression (ProtoView el bs prr vb pcl tc ec iip rbo ite) =
     (case lastBinder bs of
        None \<Rightarrow> Inl TypeError
      | Some (ElementBinder pei cd td tni hepb evs npv) \<Rightarrow>
          (let evs' = MapWrapper_set (case evs of None \<Rightarrow> [] | Some m \<Rightarrow> m) eventName expression
           in Inr (ProtoView el
                     (bs[length bs - 1 := ElementBinder pei cd td tni hepb (Some evs') npv])
                     prr vb pcl tc ec iip rbo ite)))"

text \<open>\<^verbatim>\<open>bindDirectiveProperty\<close> reads and extends the module-level table \<^verbatim>\<open>_groups\<close>.\<close>

fun bindDirectiveProperty ::
  "int \<Rightarrow> ast \<Rightarrow> string \<Rightarrow> setterFn \<Rightarrow> bool \<Rightarrow> groups \<Rightarrow> protoView \<Rightarrow> protoView \<times> groups" where
  "bindDirectiveProperty directiveIndex expression setterName setter isContentWatch groups0
       (ProtoView el bs prr vb pcl tc ec iip rbo ite) =
     (let expMemento =
            DirectivePropertyMemento (int (length bs) - 1) directiveIndex setterName setter;
          (groupMemento, groups1) = DirectivePropertyGroupMemento_get groups0 expMemento
      in (ProtoView el bs
            (addRecordsFromAST prr expression (DirectiveProperty expMemento)
               (map_option DirectivePropertyGroup groupMemento) (Some isContentWatch))
            vb pcl tc ec iip rbo ite,
          groups1))"

text \<open>\<^verbatim>\<open>ProtoView.createRootProtoView\<close>; \<^verbatim>\<open>new ProtoRecordRange()\<close> is the empty template.\<close>

fun set_instantiateInPlace :: "bool \<Rightarrow> protoView \<Rightarrow> protoView" where
  "set_instantiateInPlace b (ProtoView el bs prr vb pcl tc ec iip rbo ite) =
     ProtoView el bs prr vb pcl tc ec b rbo ite"

fun set_rootBinder ::
  "directiveMetadata \<Rightarrow> protoView \<Rightarrow> elementBinder \<Rightarrow> elementBinder" where
  "set_rootBinder componentDir nested (ElementBinder pei cd td tni hepb evs npv) =
     ElementBinder pei (Some componentDir) td tni hepb evs (Some nested)"

fun mapLastBinder :: "(elementBinder \<Rightarrow> elementBinder) \<Rightarrow> protoView \<Rightarrow> protoView" where
  "mapLastBinder f (ProtoView el bs prr vb pcl tc ec iip rbo ite) =
     ProtoView el (bs[length bs - 1 := f (bs ! (length bs - 1))]) prr vb pcl tc ec iip rbo ite"

definition createRootProtoView ::
  "protoView \<Rightarrow> node option \<Rightarrow> directiveMetadata \<Rightarrow> error + protoView" where
  "createRootProtoView protoView0 insertionElement rootComponentAnnotatedType =
     (case insertionElement of
        None \<Rightarrow> Inl TypeError
      | Some el0 \<Rightarrow>
          (case DOM_addClass el0 ''ng-binding'' of
             Inl e \<Rightarrow> Inl e
           | Inr el1 \<Rightarrow>
               (case ProtoView_new (Some el1) [] of
                  Inl e \<Rightarrow> Inl e
                | Inr rootProtoView \<Rightarrow>
                    Inr (mapLastBinder (set_rootBinder rootComponentAnnotatedType protoView0)
                          (bindElement
                             (Some (ProtoElementInjector None 0
                                      [dm_type rootComponentAnnotatedType] True))
                             None None
                             (set_instantiateInPlace True rootProtoView))))))"

subsection \<open>View: data\<close>

text \<open>
  Modelled from the spec: \<^verbatim>\<open>LightDom\<close>, \<^verbatim>\<open>ViewPort\<close> and \<^verbatim>\<open>PreBuiltObjects\<close> are not in
  view.js, which only constructs them and calls their methods. Each is named by the
  arguments of its construction; the owning view, which every one of them also receives,
  is left out (such a value only occurs inside its view).
\<close>

datatype lightDom = LightDom "node option"

datatype viewPort =
  ViewPort (vp_element: "node option") (vp_protoView: "protoView option")
    (vp_elementInjector: "elementInjector option") (vp_lightDom: "lightDom option")

datatype preBuiltObjects =
  PreBuiltObjects (pbo_element: "node option") (pbo_viewPort: "viewPort option")
    (pbo_lightDom: "lightDom option")

definition constructLightDom :: "shadowDomStrategy \<Rightarrow> node option \<Rightarrow> lightDom option" where
  "constructLightDom strategy el =
     (case strategy of EmulatedShadowDom \<Rightarrow> Some (LightDom el) | NativeShadowDom \<Rightarrow> None)"

text \<open>
  \<^verbatim>\<open>View\<close> with the fields of the class. A list field that the constructor sets to
  \<^verbatim>\<open>null\<close> is \<open>None\<close> until \<^verbatim>\<open>init\<close>. The component child views are held by value, so
  a view is the tree of its nested component views.
\<close>

datatype view =
  View
    (proto: protoView)
    (nodes: "node list")
    (recordRange: recordRange)
    (elementInjectors: "elementInjector option list option")
    (rootElementInjectors: "elementInjector list option")
    (textNodes: "node option list option")
    (bindElements: "node option list option")
    (componentChildViews: "view list option")
    (viewPorts: "viewPort list option")
    (preBuiltObjects: "preBuiltObjects option list option")
    (context': jsval)
    (contextWithLocals: jsval)

text \<open>A change record (\<^verbatim>\<open>Record\<close> of \<^verbatim>\<open>change_detection\<close>) as the dispatch reads it.\<close>

datatype changeRecord =
  ChangeRecord (expressionMemento: memento) (currentValue: jsval) (previousValue: jsval)

datatype propertyUpdate = PropertyUpdate (pu_currentValue: jsval) (pu_previousValue: jsval)

text \<open>What a setter is applied to: a directive instance or a DOM element.\<close>

datatype target = DirectiveTarget "directive option" | ElementTarget "node option"

text \<open>The calls on collaborators that have an effect, as they are recorded.\<close>

datatype call =
    RecordRange_setContext recordRange jsval
  | RecordRange_addRange recordRange recordRange
  | ViewPort_hydrate viewPort "injector option" "elementInjector option"
  | ViewPort_dehydrate viewPort
  | ElementInjector_instantiateDirectives elementInjector "injector option" "injector option"
      "preBuiltObjects option"
  | ElementInjector_clearDirectives elementInjector
  | LightDom_redistribute lightDom
  | Context_set jsval string jsval
  | Context_clearValues jsval
  | Setter setterFn target jsval
  | DOM_setText node jsval
  | OnChange_onChange directive "(string \<times> propertyUpdate) list"
  | DOM_cloneNode node
  | DOM_on node string ast
  | ShadowDom_attachTemplate shadowDomStrategy "node option" "node list"

subsection \<open>View: construction and locals\<close>

text \<open>The constructor; \<^verbatim>\<open>MapWrapper.clone\<close> of an immutable list is the list.\<close>

definition View_new ::
  "protoView \<Rightarrow> node list \<Rightarrow> protoRecordRange \<Rightarrow> (string \<times> jsval) list \<Rightarrow> view" where
  "View_new pv viewNodes prr locals =
     View pv viewNodes (ProtoRecordRange_instantiate prr) None None None None None None None Null
       (if MapWrapper_size locals > 0 then ContextWithVariableBindings Null locals else Null)"

fun init ::
  "elementInjector option list option \<Rightarrow> elementInjector list option \<Rightarrow>
   node option list option \<Rightarrow> node option list option \<Rightarrow> viewPort list option \<Rightarrow>
   preBuiltObjects option list option \<Rightarrow> view list option \<Rightarrow> view \<Rightarrow> view" where
  "init eis' reis' tns' bes' vps' pbo' ccv' (View p n rr eis reis tns bes ccv vps pbo ctx cwl) =
     View p n rr eis' reis' tns' bes' ccv' vps' pbo' ctx cwl"

definition hydrated :: "view \<Rightarrow> bool" where
  "hydrated v = isPresent (context' v)"



text \<open>\<^verbatim>\<open>_hydrateContext\<close> and \<^verbatim>\<open>_dehydrateContext\<close>.\<close>

fun hydrateContext :: "jsval \<Rightarrow> view \<Rightarrow> view \<times> call list" where
  "hydrateContext newContext (View p n rr eis reis tns bes ccv vps pbo ctx cwl) =
     (if isPresent cwl then
        (let cwl' = (case cwl of
                       ContextWithVariableBindings parent locals \<Rightarrow>
                         ContextWithVariableBindings newContext locals
                     | other \<Rightarrow> other)
         in (View p n rr eis reis tns bes ccv vps pbo cwl' cwl', [RecordRange_setContext rr cwl']))
      else
        (View p n rr eis reis tns bes ccv vps pbo newContext cwl,
         [RecordRange_setContext rr newContext]))"

fun dehydrateContext :: "view \<Rightarrow> view \<times> call list" where
  "dehydrateContext (View p n rr eis reis tns bes ccv vps pbo ctx cwl) =
     (View p n rr eis reis tns bes ccv vps pbo Null cwl,
      if isPresent cwl then [Context_clearValues cwl] else [])"

subsection \<open>View: dehydrate\<close>

definition clearDirectives :: "elementInjector option list \<Rightarrow> call list" where
  "clearDirectives eis =
     concat (map (\<lambda>x. case x of None \<Rightarrow> [] | Some ei \<Rightarrow> [ElementInjector_clearDirectives ei]) eis)"

definition dehydrateViewPorts :: "viewPort list option \<Rightarrow> call list" where
  "dehydrateViewPorts vps = (case vps of None \<Rightarrow> [] | Some l \<Rightarrow> map ViewPort_dehydrate l)"

text \<open>
  \<^verbatim>\<open>dehydrate\<close>; \<open>dehydrateViews\<close> is its first loop, over the component child views.
  An exception leaves the view as far as it was changed.
\<close>

fun dehydrate :: "view \<Rightarrow> error option \<times> view \<times> call list"
and dehydrateViews :: "view list \<Rightarrow> error option \<times> view list \<times> call list" where
  "dehydrate (View p n rr eis reis tns bes ccv vps pbo ctx cwl) =
     (case ccv of
        None \<Rightarrow> (Some TypeError, View p n rr eis reis tns bes ccv vps pbo ctx cwl, [])
      | Some cs \<Rightarrow>
          (case dehydrateViews cs of
             (Some e, cs', t1) \<Rightarrow>
               (Some e, View p n rr eis reis tns bes (Some cs') vps pbo ctx cwl, t1)
           | (None, cs', t1) \<Rightarrow>
               (case eis of
                  None \<Rightarrow>
                    (Some TypeError, View p n rr eis reis tns bes (Some cs') vps pbo ctx cwl, t1)
                | Some injectors \<Rightarrow>
                    (case dehydrateContext (View p n rr eis reis tns bes (Some cs') vps pbo ctx cwl) of
                       (v', t4) \<Rightarrow>
                         (None, v', t1 @ clearDirectives injectors @ dehydrateViewPorts vps @ t4)))))"
| "dehydrateViews [] = (None, [], [])"
| "dehydrateViews (c # cs) =
     (case dehydrate c of
        (Some e, c', t) \<Rightarrow> (Some e, c' # cs, t)
      | (None, c', t) \<Rightarrow>
          (case dehydrateViews cs of (e, cs', t') \<Rightarrow> (e, c' # cs', t @ t')))"

subsection \<open>View: change dispatch\<close>

text \<open>
  The element injector at an index of the view's list: \<^verbatim>\<open>elementInjectors[i]\<close> followed
  by a method call on it, which throws when the list or the entry is absent.
\<close>

definition injectorAt ::
  "elementInjector option list option \<Rightarrow> int \<Rightarrow> error + elementInjector" where
  "injectorAt eis i =
     (case eis of
        None \<Rightarrow> Inl TypeError
      | Some l \<Rightarrow> (case js_nth l i of Some (Some ei) \<Rightarrow> Inr ei | _ \<Rightarrow> Inl TypeError))"

text \<open>
  The dispatch asks an element injector for the directive at an index. What it answers
  depends on the injector's state, which is not the view's: the answer is the parameter
  \<open>getAtIndex\<close> of the dispatch.
\<close>

type_synonym getAtIndex = "elementInjector \<Rightarrow> int \<Rightarrow> directive option"

definition DirectivePropertyMemento_invoke ::
  "getAtIndex \<Rightarrow> directivePropertyMemento \<Rightarrow> changeRecord \<Rightarrow>
   elementInjector option list option \<Rightarrow> error + call list" where
  "DirectivePropertyMemento_invoke getAtIndex m r eis =
     (case injectorAt eis (dpm_elementInjectorIndex m) of
        Inl e \<Rightarrow> Inl e
      | Inr elementInjector \<Rightarrow>
          Inr [Setter (dpm_setter m)
                 (DirectiveTarget (getAtIndex elementInjector (dpm_directiveIndex m)))
                 (currentValue r)])"

definition ElementPropertyMemento_invoke ::
  "elementPropertyMemento \<Rightarrow> changeRecord \<Rightarrow> node option list option \<Rightarrow> error + call list" where
  "ElementPropertyMemento_invoke m r bes =
     (case bes of
        None \<Rightarrow> Inl TypeError
      | Some l \<Rightarrow>
          Inr [Setter (epm_setter m)
                 (ElementTarget (case js_nth l (epm_elementIndex m) of Some (Some el) \<Rightarrow> Some el | _ \<Rightarrow> None))
                 (currentValue r)])"

definition DirectivePropertyGroupMemento_directive ::
  "getAtIndex \<Rightarrow> directivePropertyGroupMemento \<Rightarrow> elementInjector option list option \<Rightarrow>
   error + directive option" where
  "DirectivePropertyGroupMemento_directive getAtIndex g eis =
     (case injectorAt eis (dpgm_elementInjectorIndex g) of
        Inl e \<Rightarrow> Inl e
      | Inr elementInjector \<Rightarrow> Inr (getAtIndex elementInjector (dpgm_directiveIndex g)))"

text \<open>\<^verbatim>\<open>_invokeMementoFor\<close>; \<^verbatim>\<open>DOM.setText\<close> writes a property of the node it is given.\<close>

definition invokeMementoFor :: "getAtIndex \<Rightarrow> view \<Rightarrow> changeRecord \<Rightarrow> error + call list" where
  "invokeMementoFor getAtIndex v r =
     (case expressionMemento r of
        DirectiveProperty directiveMemento \<Rightarrow>
          DirectivePropertyMemento_invoke getAtIndex directiveMemento r (elementInjectors v)
      | ElementProperty elementMemento \<Rightarrow>
          ElementPropertyMemento_invoke elementMemento r (bindElements v)
      | TextNodeIndex textNodeIndex \<Rightarrow>
          (case textNodes v of
             None \<Rightarrow> Inl TypeError
           | Some l \<Rightarrow>
               (case js_nth l textNodeIndex of
                  Some (Some textNode) \<Rightarrow> Inr [DOM_setText textNode (currentValue r)]
                | _ \<Rightarrow> Inl TypeError)))"

text \<open>\<^verbatim>\<open>_invokeMementoForRecords\<close>: the calls made, and the exception that ended the loop.\<close>

fun invokeMementoForRecords ::
  "getAtIndex \<Rightarrow> view \<Rightarrow> changeRecord list \<Rightarrow> error option \<times> call list" where
  "invokeMementoForRecords getAtIndex v [] = (None, [])"
| "invokeMementoForRecords getAtIndex v (r # records) =
     (case invokeMementoFor getAtIndex v r of
        Inl e \<Rightarrow> (Some e, [])
      | Inr t \<Rightarrow>
          (case invokeMementoForRecords getAtIndex v records of (e, t') \<Rightarrow> (e, t @ t')))"

text \<open>
  \<^verbatim>\<open>record.expressionMemento()._setterName\<close>; on a plain number the property is
  \<^verbatim>\<open>undefined\<close>, which as a key of a string map is the string \<^verbatim>\<open>"undefined"\<close>.
\<close>

fun memento_setterName :: "memento \<Rightarrow> string" where
  "memento_setterName (DirectiveProperty m) = dpm_setterName m"
| "memento_setterName (ElementProperty m) = epm_setterName m"
| "memento_setterName (TextNodeIndex n) = ''undefined''"

text \<open>\<^verbatim>\<open>_collectChanges\<close>, with the map built so far as the accumulator of the loop.\<close>

fun collectChangesFrom ::
  "(string \<times> propertyUpdate) list \<Rightarrow> changeRecord list \<Rightarrow> (string \<times> propertyUpdate) list" where
  "collectChangesFrom changes [] = changes"
| "collectChangesFrom changes (r # records) =
     collectChangesFrom
       (MapWrapper_set changes (memento_setterName (expressionMemento r))
          (PropertyUpdate (currentValue r) (previousValue r)))
       records"

definition collectChanges :: "changeRecord list \<Rightarrow> (string \<times> propertyUpdate) list" where
  "collectChanges records = collectChangesFrom [] records"

definition notifyDirectiveAboutChanges ::
  "getAtIndex \<Rightarrow> view \<Rightarrow> directivePropertyGroupMemento \<Rightarrow> changeRecord list \<Rightarrow> error + call list" where
  "notifyDirectiveAboutChanges getAtIndex v g records =
     (case DirectivePropertyGroupMemento_directive getAtIndex g (elementInjectors v) of
        Inl e \<Rightarrow> Inl e
      | Inr dir \<Rightarrow>
          (case dir of
             Some d \<Rightarrow>
               Inr (if instanceofOnChange d then [OnChange_onChange d (collectChanges records)]
                    else [])
           | None \<Rightarrow> Inr []))"

definition onRecordChange ::
  "getAtIndex \<Rightarrow> view \<Rightarrow> groupMemento \<Rightarrow> changeRecord list \<Rightarrow> error option \<times> call list" where
  "onRecordChange getAtIndex v groupMemento records =
     (case invokeMementoForRecords getAtIndex v records of
        (Some e, t) \<Rightarrow> (Some e, t)
      | (None, t) \<Rightarrow>
          (case groupMemento of
             DirectivePropertyGroup g \<Rightarrow>
               (case notifyDirectiveAboutChanges getAtIndex v g records of
                  Inl e \<Rightarrow> (Some e, t)
                | Inr t' \<Rightarrow> (None, t @ t'))
           | MementoGroup m \<Rightarrow> (None, t)))"

subsection \<open>View: hydrate\<close>

text \<open>
  The injector for the shadow DOM of a binder's component (the source's
  \<^verbatim>\<open>shadowDomAppInjector\<close>); \<^verbatim>\<open>appInjector.createChild\<close> throws on an absent injector.
\<close>

definition shadowDomAppInjector ::
  "injector option \<Rightarrow> directiveMetadata option \<Rightarrow> error + injector option" where
  "shadowDomAppInjector appInjector componentDir =
     (case componentDir of
        None \<Rightarrow> Inr None
      | Some d \<Rightarrow>
          (case dm_componentServices d of
             Some services \<Rightarrow>
               (case appInjector of
                  None \<Rightarrow> Inl TypeError
                | Some a \<Rightarrow> Inr (Some (ChildInjector a services)))
           | None \<Rightarrow> Inr appInjector))"

text \<open>\<^verbatim>\<open>this.elementInjectors[i]\<close> in the loop of \<^verbatim>\<open>hydrate\<close>: absent entries are \<open>None\<close>.\<close>

definition entryAt :: "'a option list \<Rightarrow> int \<Rightarrow> 'a option" where
  "entryAt l i = (case js_nth l i of Some (Some x) \<Rightarrow> Some x | _ \<Rightarrow> None)"

text \<open>
  The part of an iteration of the binder loop of \<^verbatim>\<open>hydrate\<close> up to the call on the
  element injector: the shadow DOM injector, the element injector, and the calls made.
\<close>

definition hydrateElementInjector ::
  "injector option \<Rightarrow> elementInjector option list option \<Rightarrow> preBuiltObjects option list option \<Rightarrow>
   elementBinder \<Rightarrow> int \<Rightarrow> error + (injector option \<times> elementInjector option \<times> call list)" where
  "hydrateElementInjector appInjector eis pbo binder i =
     (case shadowDomAppInjector appInjector (componentDirective binder) of
        Inl e \<Rightarrow> Inl e
      | Inr shadow \<Rightarrow>
          (case eis of
             None \<Rightarrow> Inl TypeError
           | Some injectors \<Rightarrow>
               (case entryAt injectors i of
                  None \<Rightarrow> Inr (shadow, None, [])
                | Some elementInjector \<Rightarrow>
                    (case pbo of
                       None \<Rightarrow> Inl TypeError
                     | Some objects \<Rightarrow>
                         Inr (shadow, Some elementInjector,
                              [ElementInjector_instantiateDirectives elementInjector appInjector
                                 shadow (entryAt objects i)])))))"

text \<open>The second loop of \<^verbatim>\<open>hydrate\<close>: the redistribution of the light DOM.\<close>

fun redistribute ::
  "preBuiltObjects option list option \<Rightarrow> elementBinder list \<Rightarrow> int \<Rightarrow> error option \<times> call list" where
  "redistribute pbo [] i = (None, [])"
| "redistribute pbo (binder # binders) i =
     (case componentDirective binder of
        None \<Rightarrow> redistribute pbo binders (i + 1)
      | Some d \<Rightarrow>
          (case pbo of
             None \<Rightarrow> (Some TypeError, [])
           | Some objects \<Rightarrow>
               (case entryAt objects i of
                  None \<Rightarrow> (Some TypeError, [])
                | Some object \<Rightarrow>
                    (case redistribute pbo binders (i + 1) of
                       (e, t) \<Rightarrow>
                         (e, (case pbo_lightDom object of
                                None \<Rightarrow> []
                              | Some lightDom \<Rightarrow> [LightDom_redistribute lightDom]) @ t)))))"

text \<open>
  \<^verbatim>\<open>hydrate\<close>; \<open>hydrateBinders\<close> is its loop over the binders. The loop hydrates the
  component child views in the order of the list, one for each binder with a component
  (the source's \<^verbatim>\<open>componentChildViewIndex++\<close>), so it takes the child views not yet
  hydrated and returns the list with the hydrated ones in place. An absent list and a
  list that is too short throw alike, at the same point.
\<close>

function (sequential) hydrate ::
  "injector option \<Rightarrow> elementInjector option \<Rightarrow> jsval \<Rightarrow> view \<Rightarrow> error option \<times> view \<times> call list"
and hydrateBinders ::
  "injector option \<Rightarrow> elementInjector option list option \<Rightarrow> preBuiltObjects option list option \<Rightarrow>
   elementBinder list \<Rightarrow> int \<Rightarrow> view list \<Rightarrow> error option \<times> view list \<times> call list" where
  "hydrate appInjector hostElementInjector newContext (View p n rr eis reis tns bes ccv vps pbo ctx cwl) =
     (if hydrated (View p n rr eis reis tns bes ccv vps pbo ctx cwl) then
        (Some (BaseException ''The view is already hydrated.''),
         View p n rr eis reis tns bes ccv vps pbo ctx cwl, [])
      else
        (case hydrateContext newContext (View p n rr eis reis tns bes ccv vps pbo ctx cwl) of
           (v1, t0) \<Rightarrow>
             (case vps of
                None \<Rightarrow> (Some TypeError, v1, t0)
              | Some ports \<Rightarrow>
                  (case hydrateBinders appInjector eis pbo (elementBinders p) 0
                          (case ccv of None \<Rightarrow> [] | Some cs \<Rightarrow> cs) of
                     (e, cs', t2) \<Rightarrow>
                       (case (if e = None then redistribute pbo (elementBinders p) 0 else (e, [])) of
                          (e', t3) \<Rightarrow>
                            (e',
                             View p n rr eis reis tns bes (map_option (\<lambda>cs. cs') ccv) vps pbo
                               (context' v1) (contextWithLocals v1),
                             t0 @ map (\<lambda>port. ViewPort_hydrate port appInjector hostElementInjector) ports
                                @ t2 @ t3))))))"
| "hydrateBinders appInjector eis pbo [] i cs = (None, cs, [])"
| "hydrateBinders appInjector eis pbo (binder # binders) i cs =
     (case hydrateElementInjector appInjector eis pbo binder i of
        Inl e \<Rightarrow> (Some e, cs, [])
      | Inr (shadow, elementInjector, t1) \<Rightarrow>
          (case componentDirective binder of
             None \<Rightarrow>
               (case hydrateBinders appInjector eis pbo binders (i + 1) cs of
                  (e, cs', t3) \<Rightarrow> (e, cs', t1 @ t3))
           | Some d \<Rightarrow>
               (case cs of
                  [] \<Rightarrow> (Some TypeError, cs, t1)
                | child # others \<Rightarrow>
                    (case elementInjector of
                       None \<Rightarrow> (Some TypeError, cs, t1)
                     | Some ei \<Rightarrow>
                         (case hydrate shadow elementInjector (Component ei) child of
                            (Some e, child', t2) \<Rightarrow> (Some e, child' # others, t1 @ t2)
                          | (None, child', t2) \<Rightarrow>
                              (case hydrateBinders appInjector eis pbo binders (i + 1) others of
                                 (e, others', t3) \<Rightarrow> (e, child' # others', t1 @ t2 @ t3)))))))"
  by pat_completeness auto
termination
  by (relation "inv_image (less_than <*lex*> less_than)
        (\<lambda>x. case x of
           Inl (a, h, c, v) \<Rightarrow> (size v, 0)
         | Inr (a, eis, pbo, bs, i, cs) \<Rightarrow> (size_list size cs, length bs))")
     (auto split: option.splits)

subsection \<open>ProtoView.instantiate\<close>

text \<open>The lists that the binder loop of \<^verbatim>\<open>instantiate\<close> builds, and the calls made so far.\<close>

record instantiateState =
  st_elementInjectors :: "elementInjector option list"
  st_rootElementInjectors :: "elementInjector list"
  st_textNodes :: "node option list"
  st_elementsWithPropertyBindings :: "node option list"
  st_preBuiltObjects :: "preBuiltObjects option list"
  st_viewPorts :: "viewPort list"
  st_componentChildViews :: "view list"
  st_calls :: "call list"

text \<open>\<^verbatim>\<open>ListWrapper.createFixedSize(n)\<close>: \<open>n\<close> empty slots.\<close>

definition initialState :: "nat \<Rightarrow> instantiateState" where
  "initialState n =
     \<lparr>st_elementInjectors = replicate n None, st_rootElementInjectors = [], st_textNodes = [],
      st_elementsWithPropertyBindings = [], st_preBuiltObjects = replicate n None,
      st_viewPorts = [], st_componentChildViews = [], st_calls = []\<rparr>"

text \<open>The element of binder \<open>i\<close> (lines 315 to 320).\<close>

definition resolveElement :: "int \<Rightarrow> node \<Rightarrow> node list \<Rightarrow> int \<Rightarrow> node option" where
  "resolveElement offset rootElementClone elementsWithBindings i =
     (if i = 0 \<and> offset = 1 then Some rootElementClone
      else js_nth elementsWithBindings (i - offset))"

text \<open>The element injector of binder \<open>i\<close> and the root injectors (lines 321 to 334).\<close>

definition instantiateElementInjector ::
  "elementBinder \<Rightarrow> elementInjector option \<Rightarrow> nat \<Rightarrow> instantiateState \<Rightarrow>
   elementInjector option \<times> instantiateState" where
  "instantiateElementInjector binder hostElementInjector i st =
     (case protoElementInjector binder of
        None \<Rightarrow> (None, st\<lparr>st_elementInjectors := (st_elementInjectors st)[i := None]\<rparr>)
      | Some pei \<Rightarrow>
          (case pei_parent pei of
             Some parent \<Rightarrow>
               (let ei = ProtoElementInjector_instantiate pei
                           (entryAt (st_elementInjectors st) (pei_index parent)) None
                in (Some ei, st\<lparr>st_elementInjectors := (st_elementInjectors st)[i := Some ei]\<rparr>))
           | None \<Rightarrow>
               (let ei = ProtoElementInjector_instantiate pei None hostElementInjector
                in (Some ei,
                    st\<lparr>st_elementInjectors := (st_elementInjectors st)[i := Some ei],
                       st_rootElementInjectors := st_rootElementInjectors st @ [ei]\<rparr>))))"

text \<open>The element pushed on the list of bound elements (lines 336 to 338).\<close>

definition pushPropertyElement ::
  "elementBinder \<Rightarrow> node option \<Rightarrow> instantiateState \<Rightarrow> instantiateState" where
  "pushPropertyElement binder el st =
     (if hasElementPropertyBindings binder
      then st\<lparr>st_elementsWithPropertyBindings := st_elementsWithPropertyBindings st @ [el]\<rparr>
      else st)"

text \<open>
  The text nodes of a binder (lines 340 to 350). \<open>k\<close> counts the calls of
  \<^verbatim>\<open>DOM.nextSibling\<close>, so that \<^verbatim>\<open>childNode\<close> is the \<open>k\<close>-th child, and \<^verbatim>\<open>null\<close> after
  the last one; \<^verbatim>\<open>DOM.nextSibling(null)\<close> throws.
\<close>

function nextSiblings :: "node list \<Rightarrow> int \<Rightarrow> int \<Rightarrow> error + int" where
  "nextSiblings kids k index =
     (if k < index then
        (case js_nth kids k of
           None \<Rightarrow> Inl TypeError
         | Some childNode \<Rightarrow> nextSiblings kids (k + 1) index)
      else Inr k)"
  by pat_completeness auto
termination
  by (relation "measure (\<lambda>(kids, k, index). nat (index - k))") auto

fun collectTextNodes :: "node list \<Rightarrow> int list \<Rightarrow> int \<Rightarrow> error + node option list" where
  "collectTextNodes kids [] k = Inr []"
| "collectTextNodes kids (index # indices) k =
     (case nextSiblings kids k index of
        Inl e \<Rightarrow> Inl e
      | Inr k' \<Rightarrow>
          (case collectTextNodes kids indices k' of
             Inl e \<Rightarrow> Inl e
           | Inr found \<Rightarrow> Inr (js_nth kids k' # found)))"

definition pushTextNodes ::
  "elementBinder \<Rightarrow> node option \<Rightarrow> instantiateState \<Rightarrow> error + instantiateState" where
  "pushTextNodes binder el st =
     (case textNodeIndices binder of
        None \<Rightarrow> Inr st
      | Some indices \<Rightarrow>
          (case el of
             None \<Rightarrow> Inl TypeError
           | Some e \<Rightarrow>
               (case collectTextNodes (DOM_templateAwareChildren e) indices 0 of
                  Inl err \<Rightarrow> Inl err
                | Inr found \<Rightarrow> Inr (st\<lparr>st_textNodes := st_textNodes st @ found\<rparr>))))"

text \<open>What follows the instantiation of the nested proto view of a component (lines 356 to 361).\<close>

definition attachComponent ::
  "directiveMetadata \<Rightarrow> node option \<Rightarrow> recordRange \<Rightarrow> view \<Rightarrow> call list \<Rightarrow> instantiateState \<Rightarrow>
   lightDom option \<times> instantiateState" where
  "attachComponent componentDir el viewRecordRange childView childCalls st =
     (constructLightDom (dm_shadowDomStrategy componentDir) el,
      st\<lparr>st_componentChildViews := st_componentChildViews st @ [childView],
         st_calls := st_calls st @ childCalls @
           [RecordRange_addRange viewRecordRange (recordRange childView),
            ShadowDom_attachTemplate (dm_shadowDomStrategy componentDir) el (nodes childView)]\<rparr>)"

text \<open>\<^verbatim>\<open>_parentElementLightDom\<close>.\<close>

definition parentElementLightDom ::
  "protoElementInjector option \<Rightarrow> preBuiltObjects option list \<Rightarrow> error + lightDom option" where
  "parentElementLightDom pei objects =
     (case pei of
        None \<Rightarrow> Inl TypeError
      | Some proto_injector \<Rightarrow>
          (case pei_parent proto_injector of
             None \<Rightarrow> Inr None
           | Some p \<Rightarrow>
               (case entryAt objects (pei_index p) of
                  None \<Rightarrow> Inl TypeError
                | Some object \<Rightarrow> Inr (pbo_lightDom object))))"

text \<open>The view port of a binder with a template directive (lines 364 to 370).\<close>

definition instantiateViewPort ::
  "elementBinder \<Rightarrow> node option \<Rightarrow> elementInjector option \<Rightarrow> instantiateState \<Rightarrow>
   error + (viewPort option \<times> instantiateState)" where
  "instantiateViewPort binder el elementInjector st =
     (case templateDirective binder of
        None \<Rightarrow> Inr (None, st)
      | Some d \<Rightarrow>
          (case parentElementLightDom (protoElementInjector binder) (st_preBuiltObjects st) of
             Inl e \<Rightarrow> Inl e
           | Inr destLightDom \<Rightarrow>
               (let port = ViewPort el (nestedProtoView binder) elementInjector destLightDom
                in Inr (Some port, st\<lparr>st_viewPorts := st_viewPorts st @ [port]\<rparr>))))"

text \<open>The prebuilt objects of a binder with an element injector (lines 372 to 375).\<close>

definition setPreBuiltObjects ::
  "node option \<Rightarrow> elementInjector option \<Rightarrow> viewPort option \<Rightarrow> lightDom option \<Rightarrow> nat \<Rightarrow>
   instantiateState \<Rightarrow> instantiateState" where
  "setPreBuiltObjects el elementInjector port lightDom i st =
     (case elementInjector of
        None \<Rightarrow> st
      | Some ei \<Rightarrow>
          st\<lparr>st_preBuiltObjects :=
               (st_preBuiltObjects st)[i := Some (PreBuiltObjects el port lightDom)]\<rparr>)"

text \<open>The event listeners of a binder (lines 377 to 391); \<^verbatim>\<open>DOM.on\<close> throws on an absent element.\<close>

definition attachEvents ::
  "elementBinder \<Rightarrow> node option \<Rightarrow> instantiateState \<Rightarrow> error + instantiateState" where
  "attachEvents binder el st =
     (case events binder of
        None \<Rightarrow> Inr st
      | Some evs \<Rightarrow>
          (if evs = [] then Inr st
           else (case el of
                   None \<Rightarrow> Inl TypeError
                 | Some e \<Rightarrow>
                     Inr (st\<lparr>st_calls := st_calls st @
                                map (\<lambda>(eventName, expr). DOM_on e eventName expr) evs\<rparr>))))"

text \<open>The part of an iteration after the component child view (lines 364 to 391).\<close>

definition finishBinder ::
  "elementBinder \<Rightarrow> node option \<Rightarrow> elementInjector option \<Rightarrow> lightDom option \<Rightarrow> nat \<Rightarrow>
   instantiateState \<Rightarrow> error + instantiateState" where
  "finishBinder binder el elementInjector lightDom i st =
     (case instantiateViewPort binder el elementInjector st of
        Inl e \<Rightarrow> Inl e
      | Inr (port, st1) \<Rightarrow>
          attachEvents binder el (setPreBuiltObjects el elementInjector port lightDom i st1))"

text \<open>The part of an iteration before the component child view (lines 314 to 350).\<close>

definition startBinder ::
  "int \<Rightarrow> node \<Rightarrow> node list \<Rightarrow> elementInjector option \<Rightarrow> elementBinder \<Rightarrow> nat \<Rightarrow>
   instantiateState \<Rightarrow> error + (node option \<times> elementInjector option \<times> instantiateState)" where
  "startBinder offset rootElementClone elementsWithBindings hostElementInjector binder i st =
     (let el = resolveElement offset rootElementClone elementsWithBindings (int i);
          (elementInjector, st1) = instantiateElementInjector binder hostElementInjector i st
      in (case pushTextNodes binder el (pushPropertyElement binder el st1) of
            Inl e \<Rightarrow> Inl e
          | Inr st2 \<Rightarrow> Inr (el, elementInjector, st2)))"

text \<open>
  The root node, the bound elements under it and the nodes of the view (lines 277 to
  301). \<^verbatim>\<open>DOM.clone\<close> and the queries throw on an absent element, and the query on the
  content of an element that has none.
\<close>

definition instantiateRoot ::
  "protoView \<Rightarrow> error + (node \<times> node list \<times> node list \<times> call list)" where
  "instantiateRoot pv =
     (case element pv of
        None \<Rightarrow> Inl TypeError
      | Some el \<Rightarrow>
          (let rootElementClone = (if instantiateInPlace pv then el else DOM_clone el);
               calls = (if instantiateInPlace pv then [] else [DOM_cloneNode el])
           in if isTemplateElement pv then
                (case DOM_content rootElementClone of
                   None \<Rightarrow> Inl TypeError
                 | Some frag \<Rightarrow>
                     Inr (rootElementClone, DOM_querySelectorAll frag NG_BINDING_CLASS, frag, calls))
              else
                (case DOM_getElementsByClassName rootElementClone NG_BINDING_CLASS of
                   Inl e \<Rightarrow> Inl e
                 | Inr elementsWithBindings \<Rightarrow>
                     Inr (rootElementClone, elementsWithBindings, [rootElementClone], calls))))"

text \<open>The binders of a proto view and their nested proto views are smaller than it.\<close>

lemma size_elementBinders: "size_list size (elementBinders pv) < size pv"
  by (cases pv) simp

lemma size_nestedProtoView: "nestedProtoView b = Some nested \<Longrightarrow> size nested < size b"
  by (cases b) simp

text \<open>
  \<^verbatim>\<open>instantiate\<close>; \<open>instantiateBinders\<close> is its loop over the binders, from binder \<open>i\<close>
  on. The result is the view and the calls made.
\<close>

function (sequential) instantiate ::
  "protoView \<Rightarrow> elementInjector option \<Rightarrow> error + (view \<times> call list)"
and instantiateBinders ::
  "int \<Rightarrow> node \<Rightarrow> node list \<Rightarrow> elementInjector option \<Rightarrow> recordRange \<Rightarrow>
   elementBinder list \<Rightarrow> nat \<Rightarrow> instantiateState \<Rightarrow> error + instantiateState" where
  "instantiate pv hostElementInjector =
     (case instantiateRoot pv of
        Inl e \<Rightarrow> Inl e
      | Inr (rootElementClone, elementsWithBindings, viewNodes, calls) \<Rightarrow>
          (let v = View_new pv viewNodes (protoRecordRange pv) (protoContextLocals pv);
               binders = elementBinders pv
           in (case instantiateBinders (rootBindingOffset pv) rootElementClone elementsWithBindings
                      hostElementInjector (recordRange v) binders 0
                      ((initialState (length binders))\<lparr>st_calls := calls\<rparr>) of
                 Inl e \<Rightarrow> Inl e
               | Inr st \<Rightarrow>
                   Inr (init (Some (st_elementInjectors st)) (Some (st_rootElementInjectors st))
                          (Some (st_textNodes st)) (Some (st_elementsWithPropertyBindings st))
                          (Some (st_viewPorts st)) (Some (st_preBuiltObjects st))
                          (Some (st_componentChildViews st)) v,
                        st_calls st))))"
| "instantiateBinders offset rootElementClone elementsWithBindings hostElementInjector rr [] i st =
     Inr st"
| "instantiateBinders offset rootElementClone elementsWithBindings hostElementInjector rr
       (binder # binders) i st =
     (case startBinder offset rootElementClone elementsWithBindings hostElementInjector binder i st of
        Inl e \<Rightarrow> Inl e
      | Inr (el, elementInjector, st2) \<Rightarrow>
          (case (case componentDirective binder of
                   None \<Rightarrow> Inr (None, st2)
                 | Some d \<Rightarrow>
                     (case nestedProtoView binder of
                        None \<Rightarrow> Inl TypeError
                      | Some nested \<Rightarrow>
                          (case instantiate nested elementInjector of
                             Inl e \<Rightarrow> Inl e
                           | Inr (childView, childCalls) \<Rightarrow>
                               Inr (attachComponent d el rr childView childCalls st2)))) of
             Inl e \<Rightarrow> Inl e
           | Inr (lightDom, st3) \<Rightarrow>
               (case finishBinder binder el elementInjector lightDom i st3 of
                  Inl e \<Rightarrow> Inl e
                | Inr st4 \<Rightarrow>
                    instantiateBinders offset rootElementClone elementsWithBindings
                      hostElementInjector rr binders (Suc i) st4)))"
  by pat_completeness auto

termination
proof (relation "measure (\<lambda>x. case x of
          Inl (pv, h) \<Rightarrow> size pv
        | Inr (off, root, ewb, h, rr, bs, i, st) \<Rightarrow> size_list size bs)", goal_cases)
  case 1
  show ?case by simp
next
  case 2
  then show ?case by (auto simp: size_elementBinders)
next
  case 3
  then show ?case by (auto dest: size_nestedProtoView)
next
  case 4
  show ?case by simp
qed

subsection \<open>Sequences of calls and states of the view tree\<close>

text \<open>
  A call of the binding-registration API, and a sequence of such calls made on one
  \<^verbatim>\<open>ProtoView\<close> as the template compiler makes them; an exception ends the sequence.
\<close>

datatype bindCall =
    BindVariable string string
  | BindElement "protoElementInjector option" "directiveMetadata option" "directiveMetadata option"
  | BindTextNode int ast
  | BindElementProperty ast string setterFn
  | BindEvent string ast
  | BindDirectiveProperty int ast string setterFn bool

fun applyBind :: "bindCall \<Rightarrow> protoView \<times> groups \<Rightarrow> error + protoView \<times> groups" where
  "applyBind (BindVariable contextName templateName) (pv, g) =
     Inr (bindVariable contextName templateName pv, g)"
| "applyBind (BindElement pei componentDir templateDir) (pv, g) =
     Inr (bindElement pei componentDir templateDir pv, g)"
| "applyBind (BindTextNode indexInParent expression) (pv, g) =
     (case bindTextNode indexInParent expression pv of Inl e \<Rightarrow> Inl e | Inr pv' \<Rightarrow> Inr (pv', g))"
| "applyBind (BindElementProperty expression setterName setter) (pv, g) =
     (case bindElementProperty expression setterName setter pv of
        Inl e \<Rightarrow> Inl e
      | Inr pv' \<Rightarrow> Inr (pv', g))"
| "applyBind (BindEvent eventName expression) (pv, g) =
     (case bindEvent eventName expression pv of Inl e \<Rightarrow> Inl e | Inr pv' \<Rightarrow> Inr (pv', g))"
| "applyBind (BindDirectiveProperty directiveIndex expression setterName setter isContentWatch) (pv, g) =
     Inr (bindDirectiveProperty directiveIndex expression setterName setter isContentWatch g pv)"

fun applyBinds :: "bindCall list \<Rightarrow> protoView \<times> groups \<Rightarrow> error + protoView \<times> groups" where
  "applyBinds [] s = Inr s"
| "applyBinds (c # cs) s = (case applyBind c s of Inl e \<Rightarrow> Inl e | Inr s' \<Rightarrow> applyBinds cs s')"

fun isBindTextNode :: "bindCall \<Rightarrow> bool" where
  "isBindTextNode (BindTextNode indexInParent expression) = True"
| "isBindTextNode c = False"

text \<open>The text node mementos registered with a record range template, in order.\<close>

fun textNodeMementos :: "protoRecordRange \<Rightarrow> int list" where
  "textNodeMementos [] = []"
| "textNodeMementos (r # rs) =
     (case pr_memento r of TextNodeIndex n \<Rightarrow> [n] | _ \<Rightarrow> []) @ textNodeMementos rs"

text \<open>A view none of whose nested component views, itself included, has a context.\<close>

fun dehydratedTree :: "view \<Rightarrow> bool" where
  "dehydratedTree (View p n rr eis reis tns bes ccv vps pbo ctx cwl) =
     (\<not> isPresent ctx \<and> (case ccv of None \<Rightarrow> True | Some cs \<Rightarrow> list_all dehydratedTree cs))"

text \<open>
  A view whose lists of component child views and of element injectors are set, as
  \<^verbatim>\<open>init\<close> sets them, and so in every nested component view.
\<close>

fun initialised :: "view \<Rightarrow> bool" where
  "initialised (View p n rr eis reis tns bes ccv vps pbo ctx cwl) =
     (eis \<noteq> None \<and> (case ccv of None \<Rightarrow> False | Some cs \<Rightarrow> list_all initialised cs))"

text \<open>The view with the context of every nested component view, itself included, set to \<^verbatim>\<open>null\<close>.\<close>

fun forgetContext :: "view \<Rightarrow> view" where
  "forgetContext (View p n rr eis reis tns bes ccv vps pbo ctx cwl) =
     View p n rr eis reis tns bes (map_option (map forgetContext) ccv) vps pbo Null cwl"

text \<open>The calls that \<^verbatim>\<open>dehydrate\<close> makes on collaborators: none of them on the DOM.\<close>

fun isDehydrateCall :: "call \<Rightarrow> bool" where
  "isDehydrateCall (ElementInjector_clearDirectives ei) = True"
| "isDehydrateCall (ViewPort_dehydrate port) = True"
| "isDehydrateCall (Context_clearValues c) = True"
| "isDehydrateCall c = False"

fun isOnChangeCall :: "call \<Rightarrow> bool" where
  "isOnChangeCall (OnChange_onChange d changes) = True"
| "isOnChangeCall c = False"

text \<open>The entry of a change record in the map of changes.\<close>

definition changeOf :: "changeRecord \<Rightarrow> string \<times> propertyUpdate" where
  "changeOf r =
     (memento_setterName (expressionMemento r), PropertyUpdate (currentValue r) (previousValue r))"

subsection \<open>Example data\<close>

text \<open>A template with a bound root and a bound child, and a hydrated view with a local variable.\<close>

definition exampleTemplate :: node where
  "exampleTemplate =
     Element ''div'' [''ng-binding'']
       [Element ''span'' [''ng-binding''] [TextNode ''a'', TextNode ''b'', TextNode ''c'']]"

definition exampleLocalsView :: view where
  "exampleLocalsView =
     View (ProtoView None [] [] [(''x'', ''y'')] [(''y'', Null)] 0 0 False 0 False) []
       (RecordRange []) (Some []) (Some []) (Some [Some (TextNode ''a'')]) (Some []) (Some [])
       (Some []) (Some [])
       (ContextWithVariableBindings (Object 1) [(''y'', Null)])
       (ContextWithVariableBindings (Object 1) [(''y'', Null)])"

definition exampleComponent :: directiveMetadata where
  "exampleComponent = DirectiveMetadata ''App'' None EmulatedShadowDom"

definition exampleNested :: protoView where
  "exampleNested = ProtoView (Some (Element ''p'' [] [])) [] [] [] [] 0 0 False 0 False"

definition exampleDirective :: directive where
  "exampleDirective = Directive 1 True"

definition exampleInjector :: elementInjector where
  "exampleInjector = ElementInjector (ProtoElementInjector None 0 [''Dir''] False) None None"

definition exampleDirectiveView :: view where
  "exampleDirectiveView =
     View (ProtoView None [] [] [] [] 0 0 False 0 False) [] (RecordRange [])
       (Some [Some exampleInjector]) (Some [exampleInjector]) (Some []) (Some []) (Some [])
       (Some []) (Some [None]) (Object 1) Null"

definition exampleGetAtIndex :: getAtIndex where
  "exampleGetAtIndex = (\<lambda>ei i. Some exampleDirective)"

definition exampleGroup :: directivePropertyGroupMemento where
  "exampleGroup = DirectivePropertyGroupMemento 0 0 0"

definition exampleRecord :: "string \<Rightarrow> int \<Rightarrow> changeRecord" where
  "exampleRecord name n =
     ChangeRecord (DirectiveProperty (DirectivePropertyMemento 0 0 name (SetterFn name)))
       (Number n) (Number (n - 1))"

definition exampleParentView :: view where
  "exampleParentView =
     View (ProtoView None [] [] [] [] 0 0 False 0 False) [Element ''div'' [] []] (RecordRange [])
       (Some [Some exampleInjector, None]) (Some [exampleInjector]) (Some []) (Some [])
       (Some [exampleLocalsView]) None (Some [None, None]) (Object 1) Null"

definition exampleRoot :: protoView where
  "exampleRoot =
     ProtoView (Some (Element ''app'' [''ng-binding''] []))
       [ElementBinder (Some (ProtoElementInjector None 0 [''App''] True))
          (Some exampleComponent) None None False None (Some exampleNested)]
       [] [] [] 0 0 True 1 False"

definition exampleAppInjector :: elementInjector where
  "exampleAppInjector = ElementInjector (ProtoElementInjector None 0 [''App''] True) None None"

definition exampleRootView :: "jsval \<Rightarrow> jsval \<Rightarrow> view" where
  "exampleRootView rootContext childContext =
     View exampleRoot [Element ''app'' [''ng-binding''] []] (RecordRange [])
       (Some [Some exampleAppInjector]) (Some [exampleAppInjector]) (Some []) (Some [])
       (Some [View exampleNested [Element ''p'' [] []] (RecordRange []) (Some []) (Some [])
                (Some []) (Some []) (Some []) (Some []) (Some []) childContext Null])
       (Some [])
       (Some [Some (PreBuiltObjects (Some (Element ''app'' [''ng-binding''] [])) None
                      (Some (LightDom (Some (Element ''app'' [''ng-binding''] [])))))])
       rootContext Null"

definition exampleSpan :: node where
  "exampleSpan = Element ''span'' [''ng-binding''] [TextNode ''a'', TextNode ''b'', TextNode ''c'']"

definition exampleDirInjector :: elementInjector where
  "exampleDirInjector = ElementInjector (ProtoElementInjector None 0 [''Dir''] False) None None"

definition examplePropsProto :: protoView where
  "examplePropsProto =
     ProtoView (Some exampleTemplate)
       [ElementBinder (Some (ProtoElementInjector None 0 [''Dir''] False)) None None None True
          None None,
        ElementBinder None None None (Some [2]) True None None]
       [] [] [] 1 2 False 1 False"

definition examplePropsView :: view where
  "examplePropsView =
     View examplePropsProto [exampleTemplate] (RecordRange [])
       (Some [Some exampleDirInjector, None]) (Some [exampleDirInjector])
       (Some [Some (TextNode ''c'')]) (Some [Some exampleTemplate, Some exampleSpan])
       (Some []) (Some []) (Some [Some (PreBuiltObjects (Some exampleTemplate) None None), None])
       Null Null"



section \<open>Properties\<close>

subsection \<open>The example data evaluated\<close>

lemma exampleRoot_created:
  "createRootProtoView exampleNested (Some (Element ''app'' [] [])) exampleComponent =
     Inr exampleRoot"
  by (simp add: createRootProtoView_def ProtoView_new_def DOM_hasClass_def NG_BINDING_CLASS_def
        isTemplate_def ElementBinder_new_def exampleRoot_def exampleComponent_def)

lemma exampleRoot_instantiate:
  "instantiate exampleRoot None =
     Inr (exampleRootView Null Null,
          [DOM_cloneNode (Element ''p'' [] []),
           RecordRange_addRange (RecordRange []) (RecordRange []),
           ShadowDom_attachTemplate EmulatedShadowDom (Some (Element ''app'' [''ng-binding''] []))
             [Element ''p'' [] []]])"
  by (simp add: exampleRoot_def exampleRootView_def exampleNested_def exampleComponent_def
        exampleAppInjector_def instantiateRoot_def DOM_getElementsByClassName_def DOM_clone_def
        View_new_def ProtoRecordRange_instantiate_def MapWrapper_size_def initialState_def
        startBinder_def resolveElement_def instantiateElementInjector_def
        ProtoElementInjector_instantiate_def pushPropertyElement_def pushTextNodes_def
        attachComponent_def constructLightDom_def finishBinder_def instantiateViewPort_def
        setPreBuiltObjects_def attachEvents_def Let_def)

lemma exampleRoot_hydrate_null:
  "fst (hydrate (Some (Injector 0)) None Null (exampleRootView Null Null)) = None
   \<and> fst (snd (hydrate (Some (Injector 0)) None Null (exampleRootView Null Null))) =
       exampleRootView Null (Component exampleAppInjector)"
  by (simp add: exampleRoot_def exampleRootView_def exampleNested_def exampleComponent_def
        exampleAppInjector_def hydrateElementInjector_def shadowDomAppInjector_def entryAt_def
        js_nth_def hydrated_def Let_def)

lemma examplePropsProto_root:
  "instantiateRoot examplePropsProto =
     Inr (exampleTemplate, [exampleSpan], [exampleTemplate], [DOM_cloneNode exampleTemplate])"
  by (simp add: instantiateRoot_def examplePropsProto_def exampleTemplate_def exampleSpan_def
        DOM_clone_def DOM_getElementsByClassName_def NG_BINDING_CLASS_def Let_def)

lemma examplePropsProto_instantiate:
  "instantiate examplePropsProto None = Inr (examplePropsView, [DOM_cloneNode exampleTemplate])"
  by (simp add: examplePropsView_def examplePropsProto_def exampleTemplate_def exampleSpan_def
        instantiateRoot_def DOM_clone_def DOM_getElementsByClassName_def NG_BINDING_CLASS_def
        View_new_def ProtoRecordRange_instantiate_def
        MapWrapper_size_def initialState_def startBinder_def resolveElement_def js_nth_def
        instantiateElementInjector_def ProtoElementInjector_instantiate_def
        pushPropertyElement_def pushTextNodes_def finishBinder_def instantiateViewPort_def
        setPreBuiltObjects_def attachEvents_def exampleDirInjector_def Let_def)


subsection \<open>The interning of group mementos\<close>

lemma map_of_MapWrapper_set: "map_of (MapWrapper_set m k v) = (map_of m)(k \<mapsto> v)"
  by (induction m) auto

text \<open>
  What \<^verbatim>\<open>get\<close> returns depends on the memento only through the number
  \<^verbatim>\<open>elementInjectorIndex * 100 + directiveIndex\<close>; mementos with equal index pairs share one
  object; and the number determines the pair as long as the directive indices are from 0
  to 99.
\<close>

lemma DirectivePropertyGroupMemento_get_by_id:
  "DirectivePropertyGroupMemento_get g m =
     (case map_of g (dpm_elementInjectorIndex m * 100 + dpm_directiveIndex m) of
        Some interned \<Rightarrow> (Some interned, g)
      | None \<Rightarrow>
          (Some (DirectivePropertyGroupMemento (length g) (dpm_elementInjectorIndex m)
                   (dpm_directiveIndex m)),
           MapWrapper_set g (dpm_elementInjectorIndex m * 100 + dpm_directiveIndex m)
             (DirectivePropertyGroupMemento (length g) (dpm_elementInjectorIndex m)
                (dpm_directiveIndex m))))"
proof (cases "map_of g (dpm_elementInjectorIndex m * 100 + dpm_directiveIndex m)")
  case None
  then show ?thesis
    by (simp add: DirectivePropertyGroupMemento_get_def MapWrapper_contains_def MapWrapper_get_def
      MapWrapper_size_def Let_def map_of_MapWrapper_set)
next
  case (Some a)
  then show ?thesis
    by (simp add: DirectivePropertyGroupMemento_get_def MapWrapper_contains_def MapWrapper_get_def
      MapWrapper_size_def Let_def)
qed


lemma DirectivePropertyGroupMemento_get_same_pair:
  assumes "dpm_elementInjectorIndex m' = dpm_elementInjectorIndex m"
    and "dpm_directiveIndex m' = dpm_directiveIndex m"
  shows "DirectivePropertyGroupMemento_get (snd (DirectivePropertyGroupMemento_get g m)) m' =
           (fst (DirectivePropertyGroupMemento_get g m), snd (DirectivePropertyGroupMemento_get g m))"
proof (cases "map_of g (dpm_elementInjectorIndex m * 100 + dpm_directiveIndex m)")
  case None
  with assms show ?thesis
    by (simp add: DirectivePropertyGroupMemento_get_by_id map_of_MapWrapper_set)
next
  case (Some a)
  with assms show ?thesis
    by (simp add: DirectivePropertyGroupMemento_get_by_id)
qed

lemma group_id_injective:
  fixes e1 e2 d1 d2 :: int
  assumes "0 \<le> d1" "d1 < 100" "0 \<le> d2" "d2 < 100" "e1 * 100 + d1 = e2 * 100 + d2"
  shows "e1 = e2 \<and> d1 = d2"
proof -
  have "(e1 * 100 + d1) div 100 = e1" "(e2 * 100 + d2) div 100 = e2"
    using assms(1-4) by simp_all
  with assms(5) have "e1 = e2" by simp
  with assms(5) show ?thesis by simp
qed

text \<open>
  C3. \<^verbatim>\<open>DirectivePropertyGroupMemento.get\<close> interns under the number
  \<^verbatim>\<open>elementInjectorIndex * 100 + directiveIndex\<close>, not under the pair. Starting from an
  empty table, the memento of element injector 0 and directive 100 and the memento of
  element injector 1 and directive 0 both get the number 100: the second call returns
  the object that the first call made, whose fields are 0 and 100, and adds nothing to
  the table.
\<close>

theorem DirectivePropertyGroupMemento_get_collision:
  "fst (DirectivePropertyGroupMemento_get []
          (DirectivePropertyMemento 0 100 ''a'' (SetterFn ''a'')))
     = Some (DirectivePropertyGroupMemento 0 0 100)
   \<and> DirectivePropertyGroupMemento_get
         (snd (DirectivePropertyGroupMemento_get []
                 (DirectivePropertyMemento 0 100 ''a'' (SetterFn ''a''))))
         (DirectivePropertyMemento 1 0 ''b'' (SetterFn ''b''))
       = (Some (DirectivePropertyGroupMemento 0 0 100),
          [(100, DirectivePropertyGroupMemento 0 0 100)])"
  by (simp add: DirectivePropertyGroupMemento_get_def MapWrapper_contains_def
        MapWrapper_get_def MapWrapper_size_def Let_def)

subsection \<open>The binding-registration API on a ProtoView without binders\<close>

lemma lastBinder_Nil: "lastBinder [] = None"
  by (simp add: lastBinder_def js_nth_def)

lemma lastBinder_nonempty: "bs \<noteq> [] \<Longrightarrow> lastBinder bs = Some (last bs)"
  by (cases bs rule: rev_cases) (simp_all add: lastBinder_def js_nth_def)

lemma lastBinder_None_iff: "lastBinder bs = None \<longleftrightarrow> bs = []"
proof (cases "bs = []")
  case True
  then show ?thesis by (simp add: lastBinder_Nil)
next
  case False
  then show ?thesis by (simp add: lastBinder_nonempty)
qed

lemma bindTextNode_fails_iff: "bindTextNode i e pv = Inl TypeError \<longleftrightarrow> elementBinders pv = []"
  by (cases pv)
    (auto simp: lastBinder_None_iff lastBinder_Nil Let_def split: option.splits elementBinder.splits)

lemma bindElementProperty_fails_iff:
  "bindElementProperty e n s pv = Inl TypeError \<longleftrightarrow> elementBinders pv = []"
  by (cases pv)
    (auto simp: lastBinder_None_iff lastBinder_Nil Let_def split: option.splits elementBinder.splits)

lemma bindEvent_fails_iff: "bindEvent n e pv = Inl TypeError \<longleftrightarrow> elementBinders pv = []"
  by (cases pv)
    (auto simp: lastBinder_None_iff lastBinder_Nil Let_def split: option.splits elementBinder.splits)

lemma bindDirectiveProperty_registers:
  "elementBinders (fst (bindDirectiveProperty d e n s w g pv)) = elementBinders pv
   \<and> protoRecordRange (fst (bindDirectiveProperty d e n s w g pv)) =
       protoRecordRange pv @
         [ProtoRecord e
            (DirectiveProperty
               (DirectivePropertyMemento (int (length (elementBinders pv)) - 1) d n s))
            (map_option DirectivePropertyGroup
               (fst (DirectivePropertyGroupMemento_get g
                       (DirectivePropertyMemento (int (length (elementBinders pv)) - 1) d n s))))
            (Some w)]"
  by (cases pv) (simp add: addRecordsFromAST_def Let_def split: prod.splits)

text \<open>
  C10, as the claim states it, fails for \<^verbatim>\<open>bindDirectiveProperty\<close>: on a ProtoView
  whose binder list is empty the call does not fail. It registers the expression under
  a memento whose element injector index is -1 and interns the group memento of -1 and 0
  under the number -100.
\<close>

theorem bindDirectiveProperty_no_binder_counterexample:
  "bindDirectiveProperty 0 (AST ''e'') ''p'' (SetterFn ''p'') False []
     (ProtoView None [] [] [] [] 0 0 False 0 False)
   = (ProtoView None []
        [ProtoRecord (AST ''e'')
           (DirectiveProperty (DirectivePropertyMemento (- 1) 0 ''p'' (SetterFn ''p'')))
           (Some (DirectivePropertyGroup (DirectivePropertyGroupMemento 0 (- 1) 0)))
           (Some False)]
        [] [] 0 0 False 0 False,
      [(- 100, DirectivePropertyGroupMemento 0 (- 1) 0)])"
  by (simp add: DirectivePropertyGroupMemento_get_def MapWrapper_contains_def
        MapWrapper_get_def MapWrapper_size_def Let_def addRecordsFromAST_def)

text \<open>
  C10, amended. \<^verbatim>\<open>bindTextNode\<close>, \<^verbatim>\<open>bindElementProperty\<close> and \<^verbatim>\<open>bindEvent\<close> address
  the last element binder and fail, with a TypeError for the missing binder, exactly
  when the ProtoView has no binder. \<^verbatim>\<open>bindDirectiveProperty\<close> reads only the length of
  the binder list: on a ProtoView without binders it leaves the binder list empty and
  registers the expression under a memento whose element injector index is -1.
\<close>

theorem bind_needs_binder:
  "(bindTextNode i e pv = Inl TypeError \<longleftrightarrow> elementBinders pv = [])
   \<and> (bindElementProperty e n s pv = Inl TypeError \<longleftrightarrow> elementBinders pv = [])
   \<and> (bindEvent n e pv = Inl TypeError \<longleftrightarrow> elementBinders pv = [])
   \<and> (elementBinders pv = [] \<longrightarrow>
        elementBinders (fst (bindDirectiveProperty d e n s w g pv)) = []
        \<and> protoRecordRange (fst (bindDirectiveProperty d e n s w g pv)) =
            protoRecordRange pv @
              [ProtoRecord e (DirectiveProperty (DirectivePropertyMemento (- 1) d n s))
                 (map_option DirectivePropertyGroup
                    (fst (DirectivePropertyGroupMemento_get g (DirectivePropertyMemento (- 1) d n s))))
                 (Some w)])"
  using bindTextNode_fails_iff [of i e pv] bindElementProperty_fails_iff [of e n s pv]
    bindEvent_fails_iff [of n e pv] bindDirectiveProperty_registers [of d e n s w g pv]
  by auto

theorem bind_needs_binder_witness:
  "elementBinders (ProtoView None [] [] [] [] 0 0 False 0 False) = []
   \<and> bindTextNode 2 (AST ''e'') (ProtoView None [] [] [] [] 0 0 False 0 False) = Inl TypeError
   \<and> bindElementProperty (AST ''e'') ''p'' (SetterFn ''p'')
         (ProtoView None [] [] [] [] 0 0 False 0 False) = Inl TypeError
   \<and> bindEvent ''p'' (AST ''e'') (ProtoView None [] [] [] [] 0 0 False 0 False) = Inl TypeError
   \<and> protoRecordRange
         (fst (bindDirectiveProperty 0 (AST ''e'') ''p'' (SetterFn ''p'') False []
                 (ProtoView None [] [] [] [] 0 0 False 0 False)))
       = [ProtoRecord (AST ''e'')
            (DirectiveProperty (DirectivePropertyMemento (- 1) 0 ''p'' (SetterFn ''p'')))
            (Some (DirectivePropertyGroup (DirectivePropertyGroupMemento 0 (- 1) 0)))
            (Some False)]"
  using bind_needs_binder [of 2 "AST ''e''" "ProtoView None [] [] [] [] 0 0 False 0 False"
      "''p''" "SetterFn ''p''" 0 False "[]"]
  by (simp add: DirectivePropertyGroupMemento_get_def MapWrapper_contains_def
        MapWrapper_get_def MapWrapper_size_def Let_def)

subsection \<open>The lifecycle state\<close>

lemma hydrated_iff: "hydrated w \<longleftrightarrow> context' w \<noteq> Null"
  by (cases "context' w") (simp_all add: hydrated_def)

lemma context_init: "context' (init a b c d e f g v) = context' v"
  by (cases v) simp

lemma nodes_init: "nodes (init a b c d e f g v) = nodes v"
  by (cases v) simp

lemma instantiate_context:
  "instantiate pv host = Inr (v, t) \<Longrightarrow> context' v = Null"
  by (auto simp: context_init View_new_def Let_def split: sum.splits prod.splits)

text \<open>
  C9. A newly constructed view has the context \<^verbatim>\<open>null\<close> and is not hydrated; so is every
  view that \<^verbatim>\<open>ProtoView.instantiate\<close> returns. For every view, \<^verbatim>\<open>hydrated()\<close> is true
  exactly when the context is not \<^verbatim>\<open>null\<close>.
\<close>

theorem views_start_dehydrated:
  "context' (View_new pv ns prr locals) = Null
   \<and> \<not> hydrated (View_new pv ns prr locals)
   \<and> (instantiate pv host = Inr (v, t) \<longrightarrow> context' v = Null \<and> \<not> hydrated v)
   \<and> (hydrated w \<longleftrightarrow> context' w \<noteq> Null)"
  using instantiate_context [of pv host v t] hydrated_iff [of w]
  by (auto simp: View_new_def hydrated_def)

theorem views_start_dehydrated_witness:
  "instantiate (ProtoView (Some exampleTemplate) [] [] [] [] 0 0 False 1 False) None =
     Inr (View (ProtoView (Some exampleTemplate) [] [] [] [] 0 0 False 1 False) [exampleTemplate]
            (RecordRange []) (Some []) (Some []) (Some []) (Some []) (Some []) (Some [])
            (Some []) Null Null,
          [DOM_cloneNode exampleTemplate])
   \<and> \<not> hydrated
         (View (ProtoView (Some exampleTemplate) [] [] [] [] 0 0 False 1 False) [exampleTemplate]
            (RecordRange []) (Some []) (Some []) (Some []) (Some []) (Some []) (Some [])
            (Some []) Null Null)"
  using views_start_dehydrated [where pv = "ProtoView (Some exampleTemplate) [] [] [] [] 0 0 False 1 False"
      and host = None
      and v = "View (ProtoView (Some exampleTemplate) [] [] [] [] 0 0 False 1 False) [exampleTemplate]
            (RecordRange []) (Some []) (Some []) (Some []) (Some []) (Some []) (Some [])
            (Some []) Null Null"
      and t = "[DOM_cloneNode exampleTemplate]"]
  by (simp add: instantiateRoot_def View_new_def initialState_def DOM_clone_def
        DOM_getElementsByClassName_def exampleTemplate_def
        ProtoRecordRange_instantiate_def MapWrapper_size_def Let_def)

subsection \<open>Text node mementos\<close>

lemma textNodeMementos_append:
  "textNodeMementos (xs @ ys) = textNodeMementos xs @ textNodeMementos ys"
  by (induction xs) simp_all

lemma bindTextNode_memento:
  "bindTextNode i e pv = Inr pv' \<Longrightarrow>
     textNodeMementos (protoRecordRange pv') =
       textNodeMementos (protoRecordRange pv) @ [textNodesWithBindingCount pv]
     \<and> textNodesWithBindingCount pv' = textNodesWithBindingCount pv + 1"
  by (cases pv)
    (auto simp: textNodeMementos_append addRecordsFromAST_def Let_def
      split: option.splits elementBinder.splits)

lemma bindElementProperty_memento:
  "bindElementProperty e n s pv = Inr pv' \<Longrightarrow>
     textNodeMementos (protoRecordRange pv') = textNodeMementos (protoRecordRange pv)
     \<and> textNodesWithBindingCount pv' = textNodesWithBindingCount pv"
  by (cases pv)
    (auto simp: textNodeMementos_append addRecordsFromAST_def Let_def
      split: option.splits elementBinder.splits)

lemma bindEvent_memento:
  "bindEvent n e pv = Inr pv' \<Longrightarrow>
     protoRecordRange pv' = protoRecordRange pv
     \<and> textNodesWithBindingCount pv' = textNodesWithBindingCount pv"
  by (cases pv) (auto simp: Let_def split: option.splits elementBinder.splits)

lemma bindDirectiveProperty_memento:
  "textNodeMementos (protoRecordRange (fst (bindDirectiveProperty d e n s w g pv))) =
     textNodeMementos (protoRecordRange pv)
   \<and> textNodesWithBindingCount (fst (bindDirectiveProperty d e n s w g pv)) =
       textNodesWithBindingCount pv"
  by (cases pv)
    (simp add: textNodeMementos_append addRecordsFromAST_def Let_def split: prod.splits)

lemma bindVariable_memento:
  "protoRecordRange (bindVariable a b pv) = protoRecordRange pv
   \<and> textNodesWithBindingCount (bindVariable a b pv) = textNodesWithBindingCount pv"
  by (cases pv) simp

lemma bindElement_memento:
  "protoRecordRange (bindElement a b c pv) = protoRecordRange pv
   \<and> textNodesWithBindingCount (bindElement a b c pv) = textNodesWithBindingCount pv"
  by (cases pv) simp

lemma applyBind_memento:
  assumes "applyBind c (pv, g) = Inr (pv', g')"
  shows "textNodeMementos (protoRecordRange pv') =
           textNodeMementos (protoRecordRange pv) @
             (if isBindTextNode c then [textNodesWithBindingCount pv] else [])
         \<and> textNodesWithBindingCount pv' =
             textNodesWithBindingCount pv + (if isBindTextNode c then 1 else 0)"
proof (cases c)
  case (BindVariable a b)
  with assms show ?thesis by (auto simp: bindVariable_memento)
next
  case (BindElement a b d)
  with assms show ?thesis by (auto simp: bindElement_memento)
next
  case (BindTextNode i e)
  with assms show ?thesis by (auto dest: bindTextNode_memento split: sum.splits)
next
  case (BindElementProperty e n s)
  with assms show ?thesis by (auto dest: bindElementProperty_memento split: sum.splits)
next
  case (BindEvent n e)
  with assms show ?thesis by (auto dest: bindEvent_memento split: sum.splits)
next
  case (BindDirectiveProperty d e n s w)
  with assms bindDirectiveProperty_memento [of d e n s w g pv] show ?thesis by auto
qed

lemma applyBinds_mementos:
  "applyBinds cs (pv, g) = Inr (pv', g') \<Longrightarrow>
     textNodeMementos (protoRecordRange pv') =
       textNodeMementos (protoRecordRange pv) @
         map (\<lambda>k. textNodesWithBindingCount pv + int k) [0 ..< length (filter isBindTextNode cs)]"
proof (induction cs arbitrary: pv g)
  case Nil
  then show ?case by simp
next
  case (Cons c cs)
  from Cons.prems obtain pv1 g1 where
    step: "applyBind c (pv, g) = Inr (pv1, g1)" and rest: "applyBinds cs (pv1, g1) = Inr (pv', g')"
    by (auto split: sum.splits)
  note m = applyBind_memento [OF step]
  note ih = Cons.IH [OF rest]
  show ?case
  proof (cases "isBindTextNode c")
    case True
    have "map (\<lambda>k. textNodesWithBindingCount pv + int k) [0 ..< Suc (length (filter isBindTextNode cs))]
          = textNodesWithBindingCount pv #
            map (\<lambda>k. textNodesWithBindingCount pv + 1 + int k) [0 ..< length (filter isBindTextNode cs)]"
      by (simp add: upt_rec [of 0] map_Suc_upt [symmetric] del: upt_Suc)
    with True m ih show ?thesis by simp
  next
    case False
    with m ih show ?thesis by simp
  qed
qed

lemma ProtoView_new_fresh:
  "ProtoView_new template prr = Inr pv \<Longrightarrow>
     protoRecordRange pv = prr \<and> textNodesWithBindingCount pv = 0 \<and> elementBinders pv = []
     \<and> element pv = template \<and> \<not> instantiateInPlace pv"
  by (auto simp: ProtoView_new_def split: sum.splits)

lemma invokeMementoFor_textNode:
  "textNodes v = Some tns \<Longrightarrow> js_nth tns n = Some (Some nd) \<Longrightarrow>
     invokeMementoFor getAtIndex v (ChangeRecord (TextNodeIndex n) cur prev) = Inr [DOM_setText nd cur]"
  by (simp add: invokeMementoFor_def)

text \<open>
  C6. The text node mementos come from the counter \<open>textNodesWithBindingCount\<close> of the
  ProtoView: a \<^verbatim>\<open>bindTextNode\<close> call registers its expression under the value of the
  counter and increments it, whatever binder is the last one. So after any sequence of
  calls of the binding API on a new ProtoView the text node mementos registered are 0, 1,
  2, ... in the order of the \<^verbatim>\<open>bindTextNode\<close> calls, strictly increasing. And the dispatch
  of a record whose memento is the number \<open>n\<close> sets the text of \<open>textNodes[n]\<close> to the
  record's current value.
\<close>

theorem textNode_mementos:
  "(ProtoView_new template [] = Inr pv0 \<and> applyBinds calls (pv0, g0) = Inr (pv, g) \<longrightarrow>
      textNodeMementos (protoRecordRange pv) = map int [0 ..< length (filter isBindTextNode calls)]
      \<and> sorted_wrt (<) (textNodeMementos (protoRecordRange pv)))
   \<and> (bindTextNode i e pv1 = Inr pv2 \<longrightarrow>
        protoRecordRange pv2 =
          protoRecordRange pv1 @
            [ProtoRecord e (TextNodeIndex (textNodesWithBindingCount pv1))
               (Some (MementoGroup (TextNodeIndex (textNodesWithBindingCount pv1)))) None]
        \<and> textNodesWithBindingCount pv2 = textNodesWithBindingCount pv1 + 1)
   \<and> (textNodes v = Some tns \<and> js_nth tns n = Some (Some nd) \<longrightarrow>
        invokeMementoFor getAtIndex v (ChangeRecord (TextNodeIndex n) cur prev) =
          Inr [DOM_setText nd cur]
        \<and> onRecordChange getAtIndex v (MementoGroup (TextNodeIndex n))
            [ChangeRecord (TextNodeIndex n) cur prev] = (None, [DOM_setText nd cur]))"
proof (intro conjI impI)
  assume a: "ProtoView_new template [] = Inr pv0 \<and> applyBinds calls (pv0, g0) = Inr (pv, g)"
  then have f: "protoRecordRange pv0 = []" "textNodesWithBindingCount pv0 = 0"
    using ProtoView_new_fresh [of template "[]" pv0] by simp_all
  from a applyBinds_mementos [of calls pv0 g0 pv g] f
  show m: "textNodeMementos (protoRecordRange pv) = map int [0 ..< length (filter isBindTextNode calls)]"
    by simp
  show "sorted_wrt (<) (textNodeMementos (protoRecordRange pv))"
    unfolding m by (simp add: sorted_wrt_map)
next
  assume "bindTextNode i e pv1 = Inr pv2"
  then show "protoRecordRange pv2 =
          protoRecordRange pv1 @
            [ProtoRecord e (TextNodeIndex (textNodesWithBindingCount pv1))
               (Some (MementoGroup (TextNodeIndex (textNodesWithBindingCount pv1)))) None]"
    and "textNodesWithBindingCount pv2 = textNodesWithBindingCount pv1 + 1"
    by (cases pv1; auto simp: addRecordsFromAST_def Let_def split: option.splits elementBinder.splits)+
next
  assume a: "textNodes v = Some tns \<and> js_nth tns n = Some (Some nd)"
  then show i: "invokeMementoFor getAtIndex v (ChangeRecord (TextNodeIndex n) cur prev) =
          Inr [DOM_setText nd cur]"
    by (simp add: invokeMementoFor_textNode)
  then show "onRecordChange getAtIndex v (MementoGroup (TextNodeIndex n))
            [ChangeRecord (TextNodeIndex n) cur prev] = (None, [DOM_setText nd cur])"
    by (simp add: onRecordChange_def)
qed

theorem textNode_mementos_witness:
  "ProtoView_new (Some exampleTemplate) [] =
     Inr (ProtoView (Some exampleTemplate) [] [] [] [] 0 0 False 1 False)
   \<and> (\<exists>pv. applyBinds
         [BindElement None None None, BindTextNode 0 (AST ''a''), BindElement None None None,
          BindTextNode 2 (AST ''c'')]
         (ProtoView (Some exampleTemplate) [] [] [] [] 0 0 False 1 False, []) = Inr (pv, [])
       \<and> textNodeMementos (protoRecordRange pv) = [0, 1])
   \<and> (\<exists>pv2. bindTextNode 2 (AST ''c'')
         (ProtoView None [ElementBinder_new None None None] [] [] [] 5 0 False 0 False) = Inr pv2
       \<and> protoRecordRange pv2 =
           [ProtoRecord (AST ''c'') (TextNodeIndex 5) (Some (MementoGroup (TextNodeIndex 5))) None]
       \<and> textNodesWithBindingCount pv2 = 6)
   \<and> onRecordChange exampleGetAtIndex exampleLocalsView (MementoGroup (TextNodeIndex 0))
         [ChangeRecord (TextNodeIndex 0) (String ''hello'') Null]
       = (None, [DOM_setText (TextNode ''a'') (String ''hello'')])"
proof -
  let ?pv0 = "ProtoView (Some exampleTemplate) [] [] [] [] 0 0 False 1 False"
  let ?pv1 = "ProtoView None [ElementBinder_new None None None] [] [] [] 5 0 False 0 False"
  let ?calls = "[BindElement None None None, BindTextNode 0 (AST ''a''), BindElement None None None,
          BindTextNode 2 (AST ''c'')]"
  have new: "ProtoView_new (Some exampleTemplate) [] = Inr ?pv0"
    by (simp add: ProtoView_new_def exampleTemplate_def DOM_hasClass_def NG_BINDING_CLASS_def
          isTemplate_def)
  obtain pv where run: "applyBinds ?calls (?pv0, []) = Inr (pv, [])"
    by (simp add: ElementBinder_new_def lastBinder_def js_nth_def addRecordsFromAST_def Let_def)
  obtain pv2 where one: "bindTextNode 2 (AST ''c'') ?pv1 = Inr pv2"
    by (simp add: ElementBinder_new_def lastBinder_def js_nth_def addRecordsFromAST_def Let_def)
  have tn: "textNodes exampleLocalsView = Some [Some (TextNode ''a'')]
            \<and> js_nth [Some (TextNode ''a'')] 0 = Some (Some (TextNode ''a''))"
    by (simp add: exampleLocalsView_def js_nth_def)
  have up: "[0 ..< length (filter isBindTextNode ?calls)] = [0, 1]"
    by (simp add: upt_rec)
  note inst = textNode_mementos [where template = "Some exampleTemplate" and ?pv0.0 = ?pv0
      and calls = ?calls and ?g0.0 = "[]" and pv = pv and g = "[]"
      and i = 2 and e = "AST ''c''" and ?pv1.0 = ?pv1 and ?pv2.0 = pv2
      and v = exampleLocalsView and tns = "[Some (TextNode ''a'')]" and n = 0
      and nd = "TextNode ''a''" and getAtIndex = exampleGetAtIndex and cur = "String ''hello''"
      and prev = Null]
  from inst new run have a: "textNodeMementos (protoRecordRange pv) = [0, 1]"
    using up by simp
  from inst one have b: "protoRecordRange pv2 =
           [ProtoRecord (AST ''c'') (TextNodeIndex 5) (Some (MementoGroup (TextNodeIndex 5))) None]
       \<and> textNodesWithBindingCount pv2 = 6"
    by simp
  from inst tn have c: "onRecordChange exampleGetAtIndex exampleLocalsView
         (MementoGroup (TextNodeIndex 0)) [ChangeRecord (TextNodeIndex 0) (String ''hello'') Null]
       = (None, [DOM_setText (TextNode ''a'') (String ''hello'')])"
    by simp
  from new run a one b c show ?thesis by blast
qed

subsection \<open>The root proto view\<close>

lemma DOM_addClass_hasClass:
  "DOM_addClass el c = Inr el' \<Longrightarrow> DOM_hasClass el' c = Inr True"
  by (cases el) (auto simp: DOM_hasClass_def)

lemma DOM_addClass_classList: "DOM_addClass el c = Inr el' \<Longrightarrow> DOM_classList el' \<noteq> None"
  by (cases el) auto

lemma DOM_addClass_content:
  "DOM_addClass el c = Inr el' \<Longrightarrow> DOM_content el' = DOM_content el \<and> isTemplate (Some el') = isTemplate (Some el)"
  by (cases el) (auto simp: isTemplate_def)

lemma isTemplate_content: "isTemplate (Some el) \<Longrightarrow> DOM_content el \<noteq> None"
  by (cases el) (auto simp: isTemplate_def)

lemma createRootProtoView_eq:
  "DOM_addClass el ''ng-binding'' = Inr el' \<Longrightarrow>
     createRootProtoView pv (Some el) d =
       Inr (ProtoView (Some el')
              [ElementBinder (Some (ProtoElementInjector None 0 [dm_type d] True)) (Some d)
                 None None False None (Some pv)]
              [] [] [] 0 0 True 1 (isTemplate (Some el')))"
  using DOM_addClass_hasClass [of el "''ng-binding''" el']
  by (simp add: createRootProtoView_def ProtoView_new_def NG_BINDING_CLASS_def ElementBinder_new_def)

lemma instantiate_nodes:
  "instantiate pv host = Inr (v, t) \<Longrightarrow>
     \<exists>root ewb calls. instantiateRoot pv = Inr (root, ewb, nodes v, calls)"
  by (auto simp: nodes_init View_new_def Let_def split: sum.splits prod.splits)

text \<open>
  C8. \<^verbatim>\<open>createRootProtoView(protoView, insertionElement, rootComponentType)\<close>, when it
  returns, returns a ProtoView with exactly one element binder, whose
  \<open>componentDirective\<close> is the given root component type and whose \<open>nestedProtoView\<close> is
  the given proto view. Its \<open>instantiateInPlace\<close> is true, so the root node that
  \<^verbatim>\<open>instantiate\<close> works on is the element of the ProtoView itself and no clone is made of
  it; when that element is not a template element, it is the one node of the view. The
  element is the insertion element with the class \<^verbatim>\<open>ng-binding\<close> added before the
  ProtoView is constructed, so \<open>rootBindingOffset\<close> is 1. The call throws exactly when
  the insertion element is absent or has no class list.
\<close>

theorem createRootProtoView_result:
  "(createRootProtoView pv (Some el) d = Inr r \<longrightarrow>
      length (elementBinders r) = 1
      \<and> componentDirective (hd (elementBinders r)) = Some d
      \<and> nestedProtoView (hd (elementBinders r)) = Some pv
      \<and> instantiateInPlace r
      \<and> rootBindingOffset r = 1
      \<and> Inr (the (element r)) = DOM_addClass el ''ng-binding''
      \<and> DOM_hasClass (the (element r)) NG_BINDING_CLASS = Inr True
      \<and> (case instantiateRoot r of
            Inl e \<Rightarrow> False
          | Inr (rootElementClone, elementsWithBindings, viewNodes, calls) \<Rightarrow>
              Some rootElementClone = element r \<and> calls = []))
   \<and> (createRootProtoView pv (Some el) d = Inr r \<and> instantiate r host = Inr (v, t)
        \<and> \<not> isTemplateElement r \<longrightarrow> map Some (nodes v) = [element r])
   \<and> (createRootProtoView pv (Some el) d = Inl TypeError \<longleftrightarrow> DOM_classList el = None)
   \<and> createRootProtoView pv None d = Inl TypeError"
proof (cases "DOM_addClass el ''ng-binding''")
  case (Inl e)
  then have "DOM_classList el = None" "e = TypeError" by (cases el; simp)+
  with Inl show ?thesis by (simp add: createRootProtoView_def)
next
  case (Inr el')
  then have cl: "DOM_classList el \<noteq> None" by (cases el) auto
  note eq = createRootProtoView_eq [OF Inr, of pv d]
  have root: "instantiateRoot (ProtoView (Some el')
              [ElementBinder (Some (ProtoElementInjector None 0 [dm_type d] True)) (Some d)
                 None None False None (Some pv)]
              [] [] [] 0 0 True 1 (isTemplate (Some el')))
       = Inr (el', if isTemplate (Some el') then DOM_querySelectorAll (the (DOM_content el')) NG_BINDING_CLASS
                   else projr (DOM_getElementsByClassName el' NG_BINDING_CLASS),
              if isTemplate (Some el') then the (DOM_content el') else [el'], [])"
    using isTemplate_content [of el'] DOM_addClass_classList [OF Inr]
    by (auto simp: instantiateRoot_def DOM_getElementsByClassName_def Let_def)
  have viewNodes: "map Some (nodes v) = [element r]"
    if a: "createRootProtoView pv (Some el) d = Inr r" and b: "instantiate r host = Inr (v, t)"
      and c: "\<not> isTemplateElement r"
  proof -
    from a eq have r: "r = ProtoView (Some el')
              [ElementBinder (Some (ProtoElementInjector None 0 [dm_type d] True)) (Some d)
                 None None False None (Some pv)]
              [] [] [] 0 0 True 1 (isTemplate (Some el'))"
      by simp
    from instantiate_nodes [OF b] obtain rt ewb calls
      where "instantiateRoot r = Inr (rt, ewb, nodes v, calls)" by blast
    with root c show ?thesis unfolding r by simp
  qed
  from eq root Inr cl DOM_addClass_hasClass [OF Inr] have
    "createRootProtoView pv (Some el) d = Inr r \<longrightarrow>
      length (elementBinders r) = 1
      \<and> componentDirective (hd (elementBinders r)) = Some d
      \<and> nestedProtoView (hd (elementBinders r)) = Some pv
      \<and> instantiateInPlace r
      \<and> rootBindingOffset r = 1
      \<and> Inr (the (element r)) = DOM_addClass el ''ng-binding''
      \<and> DOM_hasClass (the (element r)) NG_BINDING_CLASS = Inr True
      \<and> (case instantiateRoot r of
            Inl e \<Rightarrow> False
          | Inr (rootElementClone, elementsWithBindings, viewNodes, calls) \<Rightarrow>
              Some rootElementClone = element r \<and> calls = [])"
    by (auto simp: NG_BINDING_CLASS_def)
  moreover from eq cl have
    "createRootProtoView pv (Some el) d = Inl TypeError \<longleftrightarrow> DOM_classList el = None"
    by simp
  moreover have "createRootProtoView pv None d = Inl TypeError"
    by (simp add: createRootProtoView_def)
  ultimately show ?thesis using viewNodes by blast
qed

theorem createRootProtoView_result_witness:
  "createRootProtoView exampleNested (Some (Element ''app'' [] [])) exampleComponent =
     Inr exampleRoot
   \<and> elementBinders exampleRoot =
       [ElementBinder (Some (ProtoElementInjector None 0 [''App''] True))
          (Some exampleComponent) None None False None (Some exampleNested)]
   \<and> instantiateInPlace exampleRoot
   \<and> rootBindingOffset exampleRoot = 1
   \<and> element exampleRoot = Some (Element ''app'' [''ng-binding''] [])
   \<and> instantiateRoot exampleRoot =
       Inr (Element ''app'' [''ng-binding''] [], [], [Element ''app'' [''ng-binding''] []], [])
   \<and> map_sum id fst (instantiate exampleRoot None) = Inr (exampleRootView Null Null)
   \<and> \<not> isTemplateElement exampleRoot
   \<and> map Some (nodes (exampleRootView Null Null)) = [element exampleRoot]"
proof -
  have root: "instantiateRoot exampleRoot =
      Inr (Element ''app'' [''ng-binding''] [], [], [Element ''app'' [''ng-binding''] []], [])"
    by (simp add: instantiateRoot_def DOM_getElementsByClassName_def Let_def exampleRoot_def)
  have fields: "elementBinders exampleRoot =
       [ElementBinder (Some (ProtoElementInjector None 0 [''App''] True))
          (Some exampleComponent) None None False None (Some exampleNested)]
     \<and> element exampleRoot = Some (Element ''app'' [''ng-binding''] [])
     \<and> \<not> isTemplateElement exampleRoot"
    by (simp add: exampleRoot_def)
  note inst = createRootProtoView_result [where pv = exampleNested and el = "Element ''app'' [] []"
      and d = exampleComponent and r = exampleRoot and host = None
      and v = "exampleRootView Null Null"
      and t = "[DOM_cloneNode (Element ''p'' [] []),
                RecordRange_addRange (RecordRange []) (RecordRange []),
                ShadowDom_attachTemplate EmulatedShadowDom
                  (Some (Element ''app'' [''ng-binding''] [])) [Element ''p'' [] []]]"]
  note first = inst [THEN conjunct1, rule_format, OF exampleRoot_created]
  have nt: "\<not> isTemplateElement exampleRoot" using fields by simp
  note second = inst [THEN conjunct2, THEN conjunct1, rule_format,
      OF conjI [OF exampleRoot_created conjI [OF exampleRoot_instantiate nt]]]
  have mi: "map_sum id fst (instantiate exampleRoot None) = Inr (exampleRootView Null Null)"
    using exampleRoot_instantiate by (simp del: instantiate.simps)
  from first second root fields exampleRoot_created mi show ?thesis
    by (simp del: instantiate.simps)
qed

subsection \<open>Change dispatch to a directive\<close>

lemma keys_MapWrapper_set: "fst ` set (MapWrapper_set m k v) = insert k (fst ` set m)"
proof (induction m)
  case Nil
  show ?case by simp
next
  case (Cons a m)
  obtain k' v' where a: "a = (k', v')" by (cases a)
  show ?case
  proof (cases "k' = k")
    case True
    with a show ?thesis by simp
  next
    case False
    with a Cons.IH show ?thesis by (simp add: insert_commute)
  qed
qed

lemma MapWrapper_set_new: "k \<notin> fst ` set m \<Longrightarrow> MapWrapper_set m k v = m @ [(k, v)]"
  by (induction m) auto

lemma map_of_collectChangesFrom:
  "map_of (collectChangesFrom m rs) = map_of m ++ map_of (rev (map changeOf rs))"
  by (induction rs arbitrary: m) (auto simp: map_of_MapWrapper_set changeOf_def map_add_def fun_eq_iff split: option.splits)

lemma keys_collectChangesFrom:
  "fst ` set (collectChangesFrom m rs) = fst ` set m \<union> (memento_setterName \<circ> expressionMemento) ` set rs"
  by (induction rs arbitrary: m) (auto simp: keys_MapWrapper_set)

lemma collectChangesFrom_distinct:
  "distinct (map fst m @ map (memento_setterName \<circ> expressionMemento) rs) \<Longrightarrow>
     collectChangesFrom m rs = m @ map changeOf rs"
proof (induction rs arbitrary: m)
  case Nil
  then show ?case by simp
next
  case (Cons r rs)
  from Cons.prems have new: "memento_setterName (expressionMemento r) \<notin> fst ` set m"
    by auto
  from Cons.prems have d: "distinct (map fst (m @ [changeOf r]) @ map (memento_setterName \<circ> expressionMemento) rs)"
    by (auto simp: changeOf_def o_def)
  show ?case using Cons.IH [OF d] MapWrapper_set_new [OF new] by (simp add: changeOf_def)
qed

lemma invokeMementoFor_calls:
  "invokeMementoFor getAtIndex v r = Inr t \<Longrightarrow> filter isOnChangeCall t = []"
  by (auto simp: invokeMementoFor_def DirectivePropertyMemento_invoke_def
        ElementPropertyMemento_invoke_def split: memento.splits sum.splits option.splits)

lemma invokeMementoForRecords_calls:
  "invokeMementoForRecords getAtIndex v rs = (e, t) \<Longrightarrow> filter isOnChangeCall t = []"
proof (induction rs arbitrary: e t)
  case Nil
  then show ?case by simp
next
  case (Cons r rs)
  then show ?case
    by (auto split: sum.splits prod.splits dest: invokeMementoFor_calls)
qed

lemma invokeMementoForRecords_all:
  "invokeMementoForRecords getAtIndex v rs = (None, t) \<Longrightarrow>
     \<exists>ts. map (invokeMementoFor getAtIndex v) rs = map Inr ts \<and> t = concat ts"
proof (induction rs arbitrary: t)
  case Nil
  then show ?case by simp
next
  case (Cons r rs)
  from Cons.prems obtain t1 t2 where
    r: "invokeMementoFor getAtIndex v r = Inr t1" and
    rs: "invokeMementoForRecords getAtIndex v rs = (None, t2)" and t: "t = t1 @ t2"
    by (auto split: sum.splits prod.splits)
  from Cons.IH [OF rs] obtain ts where
    "map (invokeMementoFor getAtIndex v) rs = map Inr ts" "t2 = concat ts" by blast
  with r t have "map (invokeMementoFor getAtIndex v) (r # rs) = map Inr (t1 # ts) \<and> t = concat (t1 # ts)"
    by simp
  then show ?case by blast
qed

text \<open>
  C1, amended. When the group memento of \<^verbatim>\<open>onRecordChange(groupMemento, records)\<close> is a
  directive property group, every record's memento has been applied without an
  exception, and the directive that the group resolves to is an instance of
  \<^verbatim>\<open>OnChange\<close>, then \<^verbatim>\<open>onChange\<close> is called exactly once, after the calls of all the
  records' mementos, with the map of \<^verbatim>\<open>_collectChanges\<close>. The keys of that map are the
  setter names of the records, and each key holds the current and previous value of
  the last record with that setter name; when the setter names of the records are
  pairwise distinct the map has one entry for each record, in order.
\<close>

theorem onRecordChange_notifies_once:
  "(invokeMementoForRecords getAtIndex v records = (None, t)
    \<and> DirectivePropertyGroupMemento_directive getAtIndex g (elementInjectors v) = Inr (Some d)
    \<and> instanceofOnChange d \<longrightarrow>
      onRecordChange getAtIndex v (DirectivePropertyGroup g) records =
        (None, t @ [OnChange_onChange d (collectChanges records)])
      \<and> filter isOnChangeCall t = []
      \<and> (\<exists>ts. map (invokeMementoFor getAtIndex v) records = map Inr ts \<and> t = concat ts))
   \<and> fst ` set (collectChanges records) = (memento_setterName \<circ> expressionMemento) ` set records
   \<and> map_of (collectChanges records) = map_of (rev (map changeOf records))
   \<and> (distinct (map (memento_setterName \<circ> expressionMemento) records) \<longrightarrow>
        collectChanges records = map changeOf records)"
proof (intro conjI impI)
  assume a: "invokeMementoForRecords getAtIndex v records = (None, t)
    \<and> DirectivePropertyGroupMemento_directive getAtIndex g (elementInjectors v) = Inr (Some d)
    \<and> instanceofOnChange d"
  then show "onRecordChange getAtIndex v (DirectivePropertyGroup g) records =
        (None, t @ [OnChange_onChange d (collectChanges records)])"
    by (simp add: onRecordChange_def notifyDirectiveAboutChanges_def)
  from a show "filter isOnChangeCall t = []"
    using invokeMementoForRecords_calls by blast
  from a show "\<exists>ts. map (invokeMementoFor getAtIndex v) records = map Inr ts \<and> t = concat ts"
    using invokeMementoForRecords_all by blast
next
  show "fst ` set (collectChanges records) = (memento_setterName \<circ> expressionMemento) ` set records"
    by (simp add: collectChanges_def keys_collectChangesFrom)
  show "map_of (collectChanges records) = map_of (rev (map changeOf records))"
    by (simp add: collectChanges_def map_of_collectChangesFrom)
next
  assume "distinct (map (memento_setterName \<circ> expressionMemento) records)"
  then show "collectChanges records = map changeOf records"
    using collectChangesFrom_distinct [of "[]" records] by (simp add: collectChanges_def)
qed

text \<open>
  C1, as the claim states it, fails for a batch in which two records have the same setter
  name: the directive is notified once, with a map of one entry that holds the values of
  the second record; the values of the first record are in no entry.
\<close>

theorem onRecordChange_same_name_counterexample:
  "onRecordChange exampleGetAtIndex exampleDirectiveView
     (DirectivePropertyGroup exampleGroup) [exampleRecord ''p'' 1, exampleRecord ''p'' 2]
   = (None,
      [Setter (SetterFn ''p'') (DirectiveTarget (Some exampleDirective)) (Number 1),
       Setter (SetterFn ''p'') (DirectiveTarget (Some exampleDirective)) (Number 2),
       OnChange_onChange exampleDirective [(''p'', PropertyUpdate (Number 2) (Number 1))]])"
  by (simp add: onRecordChange_def invokeMementoFor_def DirectivePropertyMemento_invoke_def
        injectorAt_def js_nth_def exampleDirectiveView_def exampleRecord_def exampleGroup_def
        notifyDirectiveAboutChanges_def DirectivePropertyGroupMemento_directive_def
        exampleDirective_def collectChanges_def exampleGetAtIndex_def)

theorem onRecordChange_notifies_once_witness:
  "onRecordChange exampleGetAtIndex exampleDirectiveView
     (DirectivePropertyGroup exampleGroup) [exampleRecord ''p'' 1, exampleRecord ''q'' 5]
   = (None,
      [Setter (SetterFn ''p'') (DirectiveTarget (Some exampleDirective)) (Number 1),
       Setter (SetterFn ''q'') (DirectiveTarget (Some exampleDirective)) (Number 5),
       OnChange_onChange exampleDirective
         [(''p'', PropertyUpdate (Number 1) (Number 0)),
          (''q'', PropertyUpdate (Number 5) (Number 4))]])"
proof -
  let ?get = exampleGetAtIndex
  let ?rs = "[exampleRecord ''p'' 1, exampleRecord ''q'' 5]"
  let ?t = "[Setter (SetterFn ''p'') (DirectiveTarget (Some exampleDirective)) (Number 1),
       Setter (SetterFn ''q'') (DirectiveTarget (Some exampleDirective)) (Number 5)]"
  have a: "invokeMementoForRecords ?get exampleDirectiveView ?rs = (None, ?t)"
    by (simp add: invokeMementoFor_def DirectivePropertyMemento_invoke_def
        injectorAt_def js_nth_def exampleDirectiveView_def exampleRecord_def exampleGetAtIndex_def)
  have b: "DirectivePropertyGroupMemento_directive ?get exampleGroup
             (elementInjectors exampleDirectiveView) = Inr (Some exampleDirective)"
    by (simp add: DirectivePropertyGroupMemento_directive_def injectorAt_def js_nth_def
          exampleDirectiveView_def exampleGroup_def exampleGetAtIndex_def)
  have c: "instanceofOnChange exampleDirective"
    by (simp add: exampleDirective_def)
  have d: "distinct (map (memento_setterName \<circ> expressionMemento) ?rs)"
    by (simp add: exampleRecord_def)
  note inst = onRecordChange_notifies_once [where getAtIndex = ?get and v = exampleDirectiveView
      and records = ?rs and t = ?t and g = exampleGroup and d = exampleDirective]
  from inst a b c d have
    "onRecordChange ?get exampleDirectiveView (DirectivePropertyGroup exampleGroup) ?rs =
       (None, ?t @ [OnChange_onChange exampleDirective (map changeOf ?rs)])"
    by simp
  then show ?thesis by (simp add: changeOf_def exampleRecord_def)
qed

subsection \<open>Dehydration\<close>

lemma dehydrate_state:
  "(fst (dehydrate v) = None \<longrightarrow> fst (snd (dehydrate v)) = forgetContext v)"
  "(fst (dehydrateViews cs) = None \<longrightarrow> fst (snd (dehydrateViews cs)) = map forgetContext cs)"
  by (induction v and cs rule: dehydrate_dehydrateViews.induct)
    (auto split: option.splits prod.splits)

lemma clearDirectives_calls: "filter (\<lambda>c. \<not> isDehydrateCall c) (clearDirectives eis) = []"
  by (induction eis) (auto simp: clearDirectives_def split: option.splits)

lemma dehydrateViewPorts_calls: "filter (\<lambda>c. \<not> isDehydrateCall c) (dehydrateViewPorts vps) = []"
  by (cases vps) (auto simp: dehydrateViewPorts_def filter_empty_conv)

lemma dehydrate_calls:
  "filter (\<lambda>c. \<not> isDehydrateCall c) (snd (snd (dehydrate v))) = []"
  "filter (\<lambda>c. \<not> isDehydrateCall c) (snd (snd (dehydrateViews cs))) = []"
  by (induction v and cs rule: dehydrate_dehydrateViews.induct)
    (auto simp: clearDirectives_calls dehydrateViewPorts_calls split: option.splits prod.splits)

lemma dehydrate_initialised:
  "initialised v \<longrightarrow> fst (dehydrate v) = None"
  "list_all initialised cs \<longrightarrow> fst (dehydrateViews cs) = None"
  by (induction v and cs rule: dehydrate_dehydrateViews.induct)
    (auto split: option.splits prod.splits)

lemma dehydrate_frame:
  "nodes (fst (snd (dehydrate v))) = nodes v
   \<and> textNodes (fst (snd (dehydrate v))) = textNodes v
   \<and> bindElements (fst (snd (dehydrate v))) = bindElements v
   \<and> elementInjectors (fst (snd (dehydrate v))) = elementInjectors v
   \<and> recordRange (fst (snd (dehydrate v))) = recordRange v
   \<and> proto (fst (snd (dehydrate v))) = proto v
   \<and> viewPorts (fst (snd (dehydrate v))) = viewPorts v"
  by (cases v) (auto split: option.splits prod.splits)

lemma dehydrate_order:
  "componentChildViews v = Some cs \<Longrightarrow> elementInjectors v = Some eis \<Longrightarrow>
   fst (dehydrateViews cs) = None \<Longrightarrow>
     fst (dehydrate v) = None
     \<and> context' (fst (snd (dehydrate v))) = Null
     \<and> componentChildViews (fst (snd (dehydrate v))) = Some (fst (snd (dehydrateViews cs)))
     \<and> snd (snd (dehydrate v)) =
         snd (snd (dehydrateViews cs)) @ clearDirectives eis @ dehydrateViewPorts (viewPorts v)
           @ (if isPresent (contextWithLocals v) then [Context_clearValues (contextWithLocals v)]
              else [])"
  by (cases v) (auto split: option.splits prod.splits)

lemma clearDirectives_eq:
  "clearDirectives eis = map ElementInjector_clearDirectives (map the (filter (\<lambda>x. x \<noteq> None) eis))"
  by (induction eis) (auto simp: clearDirectives_def)

lemma dehydratedTree_forgetContext: "dehydratedTree (forgetContext v)"
  by (induction v rule: forgetContext.induct) (auto simp: list_all_iff split: option.splits)

text \<open>
  C7. \<^verbatim>\<open>dehydrate\<close> leaves \<open>nodes\<close>, \<open>textNodes\<close>, \<open>bindElements\<close>, \<open>elementInjectors\<close>
  and \<open>recordRange\<close> of the view as they are, whether it throws or not, and calls
  nothing but \<^verbatim>\<open>clearDirectives\<close>, \<^verbatim>\<open>ViewPort.dehydrate\<close> and \<^verbatim>\<open>clearValues\<close>: no call
  on the DOM. When the lists of component child views and of element injectors are set
  and the child views dehydrate without an exception, it returns without an exception,
  also when \<open>viewPorts\<close> is \<^verbatim>\<open>null\<close>; its calls are, in this order, those of the child
  views, \<^verbatim>\<open>clearDirectives\<close> on every element injector that is not \<^verbatim>\<open>null\<close>,
  \<^verbatim>\<open>dehydrate\<close> on every view port, and \<^verbatim>\<open>clearValues\<close> on the context with locals if
  there is one; the view it leaves differs from the one before only in that the context
  of the view and of every nested component view is \<^verbatim>\<open>null\<close>. A view initialised as
  \<^verbatim>\<open>init\<close> does it, in all its nested views, dehydrates without an exception.
\<close>

theorem dehydrate_keeps_structure:
  "nodes (fst (snd (dehydrate v))) = nodes v
   \<and> textNodes (fst (snd (dehydrate v))) = textNodes v
   \<and> bindElements (fst (snd (dehydrate v))) = bindElements v
   \<and> elementInjectors (fst (snd (dehydrate v))) = elementInjectors v
   \<and> recordRange (fst (snd (dehydrate v))) = recordRange v
   \<and> filter (\<lambda>c. \<not> isDehydrateCall c) (snd (snd (dehydrate v))) = []
   \<and> (componentChildViews v = Some cs \<and> elementInjectors v = Some eis
        \<and> fst (dehydrateViews cs) = None \<longrightarrow>
        fst (dehydrate v) = None
        \<and> fst (snd (dehydrate v)) = forgetContext v
        \<and> context' (fst (snd (dehydrate v))) = Null
        \<and> snd (snd (dehydrate v)) =
            snd (snd (dehydrateViews cs))
            @ map ElementInjector_clearDirectives (map the (filter (\<lambda>x. x \<noteq> None) eis))
            @ (case viewPorts v of None \<Rightarrow> [] | Some ports \<Rightarrow> map ViewPort_dehydrate ports)
            @ (if isPresent (contextWithLocals v)
               then [Context_clearValues (contextWithLocals v)] else []))
   \<and> (initialised v \<longrightarrow>
        fst (dehydrate v) = None \<and> dehydratedTree (fst (snd (dehydrate v))))"
proof -
  have order: "fst (dehydrate v) = None
        \<and> fst (snd (dehydrate v)) = forgetContext v
        \<and> context' (fst (snd (dehydrate v))) = Null
        \<and> snd (snd (dehydrate v)) =
            snd (snd (dehydrateViews cs))
            @ map ElementInjector_clearDirectives (map the (filter (\<lambda>x. x \<noteq> None) eis))
            @ (case viewPorts v of None \<Rightarrow> [] | Some ports \<Rightarrow> map ViewPort_dehydrate ports)
            @ (if isPresent (contextWithLocals v)
               then [Context_clearValues (contextWithLocals v)] else [])"
    if "componentChildViews v = Some cs \<and> elementInjectors v = Some eis
        \<and> fst (dehydrateViews cs) = None"
    using that dehydrate_order [of v cs eis] dehydrate_state(1) [of v]
    by (simp add: clearDirectives_eq dehydrateViewPorts_def)
  have init: "fst (dehydrate v) = None \<and> dehydratedTree (fst (snd (dehydrate v)))"
    if "initialised v"
    using that dehydrate_initialised(1) [of v] dehydrate_state(1) [of v]
    by (simp add: dehydratedTree_forgetContext)
  from order init dehydrate_frame [of v] dehydrate_calls(1) [of v] show ?thesis
    by blast
qed

theorem dehydrate_keeps_structure_witness:
  "viewPorts exampleParentView = None
   \<and> initialised exampleParentView
   \<and> dehydrate exampleParentView =
       (None, forgetContext exampleParentView,
        [Context_clearValues (ContextWithVariableBindings (Object 1) [(''y'', Null)]),
         ElementInjector_clearDirectives exampleInjector])
   \<and> nodes (forgetContext exampleParentView) = [Element ''div'' [] []]"
proof -
  have c: "dehydrateViews [exampleLocalsView] =
      (None, [forgetContext exampleLocalsView],
       [Context_clearValues (ContextWithVariableBindings (Object 1) [(''y'', Null)])])"
    by (simp add: exampleLocalsView_def clearDirectives_def dehydrateViewPorts_def)
  have f: "componentChildViews exampleParentView = Some [exampleLocalsView]
      \<and> elementInjectors exampleParentView = Some [Some exampleInjector, None]
      \<and> fst (dehydrateViews [exampleLocalsView]) = None"
    using c by (simp add: exampleParentView_def)
  have i: "initialised exampleParentView"
    by (simp add: exampleParentView_def exampleLocalsView_def)
  note inst = dehydrate_keeps_structure [where v = exampleParentView
      and cs = "[exampleLocalsView]" and eis = "[Some exampleInjector, None]"]
  from inst f have "dehydrate exampleParentView =
       (None, forgetContext exampleParentView,
        snd (snd (dehydrateViews [exampleLocalsView]))
        @ [ElementInjector_clearDirectives exampleInjector]
        @ (case viewPorts exampleParentView of None \<Rightarrow> [] | Some ports \<Rightarrow> map ViewPort_dehydrate ports)
        @ (if isPresent (contextWithLocals exampleParentView)
               then [Context_clearValues (contextWithLocals exampleParentView)] else []))"
    by (simp add: prod_eq_iff)
  with c i show ?thesis by (simp add: exampleParentView_def)
qed

subsection \<open>Hydration\<close>

lemma hydrate_guard:
  "hydrated v \<Longrightarrow> hydrate a h c v = (Some (BaseException ''The view is already hydrated.''), v, [])"
  by (cases v) (simp add: hydrated_def)

lemma hydrateContext_call:
  "snd (hydrateContext c v) = [RecordRange_setContext (recordRange v) (context' (fst (hydrateContext c v)))]"
  by (cases v) (simp add: Let_def)


lemma hydrate_passes:
  "\<not> hydrated v \<Longrightarrow>
     context' (fst (snd (hydrate a h c v))) = context' (fst (hydrateContext c v))
     \<and> (\<exists>t. snd (snd (hydrate a h c v)) =
            RecordRange_setContext (recordRange v) (context' (fst (hydrateContext c v))) # t)"
  by (cases v) (auto simp: hydrated_def Let_def split: option.splits prod.splits)

lemma hydrateElementInjector_error:
  "hydrateElementInjector a eis pbo b i = Inl e \<Longrightarrow> e = TypeError"
  by (auto simp: hydrateElementInjector_def shadowDomAppInjector_def
      split: sum.splits option.splits)

lemma redistribute_error: "fst (redistribute pbo bs i) \<noteq> Some (BaseException m)"
proof (induction bs arbitrary: i)
  case Nil
  show ?case by simp
next
  case (Cons b bs)
  show ?case using Cons.IH [of "i + 1"] by (auto split: option.splits prod.splits)
qed

lemma hydrate_dehydratedTree:
  "dehydratedTree v \<longrightarrow> fst (hydrate a h c v) \<noteq> Some (BaseException m)"
  "list_all dehydratedTree cs \<longrightarrow>
     fst (hydrateBinders a eis pbo bs i cs) \<noteq> Some (BaseException m)"
proof (induction a h c v and a eis pbo bs i cs rule: hydrate_hydrateBinders.induct)
  case (1 appInjector hostElementInjector newContext p n rr eis reis tns bes ccv vps pbo ctx cwl)
  show ?case
  proof (intro impI)
    assume d: "dehydratedTree (View p n rr eis reis tns bes ccv vps pbo ctx cwl)"
    then have ctx: "\<not> hydrated (View p n rr eis reis tns bes ccv vps pbo ctx cwl)"
      and kids: "list_all dehydratedTree (case ccv of None \<Rightarrow> [] | Some cs \<Rightarrow> cs)"
      by (auto simp: hydrated_def split: option.splits)
    obtain v1 t0 where hc: "hydrateContext newContext (View p n rr eis reis tns bes ccv vps pbo ctx cwl) = (v1, t0)"
      by (cases "hydrateContext newContext (View p n rr eis reis tns bes ccv vps pbo ctx cwl)")
    show "fst (hydrate appInjector hostElementInjector newContext
                (View p n rr eis reis tns bes ccv vps pbo ctx cwl)) \<noteq> Some (BaseException m)"
    proof (cases vps)
      case None
      with ctx hc show ?thesis by (simp del: hydrateContext.simps)
    next
      case (Some ports)
      obtain e cs' t2 where hb: "hydrateBinders appInjector eis pbo (elementBinders p) 0
                          (case ccv of None \<Rightarrow> [] | Some cs \<Rightarrow> cs) = (e, cs', t2)"
        by (cases "hydrateBinders appInjector eis pbo (elementBinders p) 0
                          (case ccv of None \<Rightarrow> [] | Some cs \<Rightarrow> cs)")
      from "1.IH" [OF ctx hc [symmetric] Some] kids hb
      have e: "e \<noteq> Some (BaseException m)" by simp
      show ?thesis
      proof (cases e)
        case None
        obtain e' t3 where rd: "redistribute pbo (elementBinders p) 0 = (e', t3)"
          by (cases "redistribute pbo (elementBinders p) 0")
        with redistribute_error [of pbo "elementBinders p" 0 m] have "e' \<noteq> Some (BaseException m)"
          by auto
        with ctx hc Some hb None rd show ?thesis by (simp del: hydrateContext.simps)
      next
        case (Some err)
        with ctx hc \<open>vps = Some ports\<close> hb e show ?thesis by (simp del: hydrateContext.simps)
      qed
    qed
  qed
next
  case (2 appInjector eis pbo i cs)
  show ?case by simp
next
  case (3 appInjector eis pbo bd bds i cs)
  show ?case
  proof (intro impI)
    assume kids: "list_all dehydratedTree cs"
    show "fst (hydrateBinders appInjector eis pbo (bd # bds) i cs) \<noteq> Some (BaseException m)"
    proof (cases "hydrateElementInjector appInjector eis pbo bd i")
      case (Inl err)
      with hydrateElementInjector_error [OF Inl] show ?thesis by simp
    next
      case (Inr res)
      obtain shadow elementInjector t1 where res: "res = (shadow, elementInjector, t1)"
        by (cases res)
      show ?thesis
      proof (cases "componentDirective bd")
        case None
        from "3.IH"(1) [OF Inr res [symmetric] refl None] kids Inr res None
        show ?thesis by (auto split: prod.splits)
      next
        case (Some d)
        show ?thesis
        proof (cases cs)
          case Nil
          with Inr res Some show ?thesis by simp
        next
          case (Cons child others)
          show ?thesis
          proof (cases elementInjector)
            case None
            with Inr res Some Cons show ?thesis by simp
          next
            case ei: (Some ei)
            obtain e child' t2 where hc: "hydrate shadow elementInjector (Component ei) child = (e, child', t2)"
              by (cases "hydrate shadow elementInjector (Component ei) child")
            from kids Cons have dc: "dehydratedTree child" and dothers: "list_all dehydratedTree others"
              by simp_all
            from "3.IH"(2) [OF Inr res [symmetric] refl Some Cons ei] dc hc
            have e: "e \<noteq> Some (BaseException m)" by simp
            show ?thesis
            proof (cases e)
              case None
              from "3.IH"(3) [OF Inr res [symmetric] refl Some Cons ei hc [symmetric, unfolded None] refl refl] dothers
              have "fst (hydrateBinders appInjector eis pbo bds (i + 1) others) \<noteq> Some (BaseException m)"
                by simp
              with Inr res Some Cons ei hc None show ?thesis by (auto split: prod.splits)
            next
              case (Some err)
              with Inr res \<open>componentDirective bd = Some d\<close> Cons ei hc e show ?thesis by simp
            qed
          qed
        qed
      qed
    qed
  qed
qed

lemma startBinder_frame:
  "startBinder off root ewb host b i st = Inr (el, ei, st2) \<Longrightarrow>
     el = resolveElement off root ewb (int i)
     \<and> st_componentChildViews st2 = st_componentChildViews st
     \<and> st_elementsWithPropertyBindings st2 =
         st_elementsWithPropertyBindings st @ (if hasElementPropertyBindings b then [el] else [])"
  by (auto simp: startBinder_def instantiateElementInjector_def pushTextNodes_def
      pushPropertyElement_def Let_def split: sum.splits option.splits prod.splits if_splits)

lemma finishBinder_frame:
  "finishBinder b el ei ld i st = Inr st' \<Longrightarrow>
     st_componentChildViews st' = st_componentChildViews st
     \<and> st_elementsWithPropertyBindings st' = st_elementsWithPropertyBindings st"
  by (auto simp: finishBinder_def instantiateViewPort_def setPreBuiltObjects_def attachEvents_def
      Let_def split: sum.splits option.splits prod.splits if_splits)

lemma attachComponent_frame:
  "attachComponent d el rr child calls st = (ld, st') \<Longrightarrow>
     st_componentChildViews st' = st_componentChildViews st @ [child]
     \<and> st_elementsWithPropertyBindings st' = st_elementsWithPropertyBindings st"
  by (auto simp: attachComponent_def)

lemma dehydratedTree_init:
  "dehydratedTree (init a b c d e f (Some cs) (View_new pv ns prr locals)) = list_all dehydratedTree cs"
  by (simp add: View_new_def)

lemma instantiate_dehydratedTree:
  "case instantiate pv host of Inl e \<Rightarrow> True | Inr (v, t) \<Rightarrow> dehydratedTree v"
  "list_all dehydratedTree (st_componentChildViews st) \<longrightarrow>
     (case instantiateBinders off root ewb host rr bs i st of
        Inl e \<Rightarrow> True
      | Inr st' \<Rightarrow> list_all dehydratedTree (st_componentChildViews st'))"
proof (induction pv host and off root ewb host rr bs i st rule: instantiate_instantiateBinders.induct)
  case (1 pv hostElementInjector)
  show ?case
  proof (cases "instantiateRoot pv")
    case (Inl e)
    then show ?thesis by simp
  next
    case (Inr res)
    obtain root ewb viewNodes calls where res: "res = (root, ewb, viewNodes, calls)"
      by (cases res)
    let ?v = "View_new pv viewNodes (protoRecordRange pv) (protoContextLocals pv)"
    let ?st = "(initialState (length (elementBinders pv)))\<lparr>st_calls := calls\<rparr>"
    have "list_all dehydratedTree (st_componentChildViews ?st)"
      by (simp add: initialState_def)
    with "1.IH" [OF Inr res [symmetric] refl refl refl refl]
    have "case instantiateBinders (rootBindingOffset pv) root ewb hostElementInjector
              (recordRange ?v) (elementBinders pv) 0 ?st of
            Inl e \<Rightarrow> True | Inr st' \<Rightarrow> list_all dehydratedTree (st_componentChildViews st')"
      by simp
    with Inr res show ?thesis
      by (auto simp: Let_def dehydratedTree_init split: sum.splits simp del: init.simps)
  qed
next
  case (2 off root ewb host rr i st)
  show ?case by simp
next
  case (3 off root ewb host rr bd bds i st)
  show ?case
  proof (intro impI)
    assume kids: "list_all dehydratedTree (st_componentChildViews st)"
    show "case instantiateBinders off root ewb host rr (bd # bds) i st of
            Inl e \<Rightarrow> True | Inr st' \<Rightarrow> list_all dehydratedTree (st_componentChildViews st')"
    proof (cases "startBinder off root ewb host bd i st")
      case (Inl e)
      then show ?thesis by simp
    next
      case (Inr res)
      obtain el ei st2 where res: "res = (el, ei, st2)" by (cases res)
      from startBinder_frame [OF Inr [unfolded res]] kids
      have k2: "list_all dehydratedTree (st_componentChildViews st2)" by simp
      let ?mid = "case componentDirective bd of
                   None \<Rightarrow> Inr (None, st2)
                 | Some d \<Rightarrow>
                     (case nestedProtoView bd of
                        None \<Rightarrow> Inl TypeError
                      | Some nested \<Rightarrow>
                          (case instantiate nested ei of
                             Inl e \<Rightarrow> Inl e
                           | Inr (childView, childCalls) \<Rightarrow>
                               Inr (attachComponent d el rr childView childCalls st2)))"
      show ?thesis
      proof (cases ?mid)
        case (Inl e)
        with Inr res show ?thesis by simp
      next
        case mid: (Inr res3)
        obtain ld st3 where res3: "res3 = (ld, st3)" by (cases res3)
        have k3: "list_all dehydratedTree (st_componentChildViews st3)"
        proof (cases "componentDirective bd")
          case None
          with mid res3 k2 show ?thesis by simp
        next
          case (Some d)
          with mid obtain nested where n: "nestedProtoView bd = Some nested"
            by (auto split: option.splits)
          with mid Some obtain child childCalls where
            c: "instantiate nested ei = Inr (child, childCalls)"
            and a: "attachComponent d el rr child childCalls st2 = (ld, st3)"
            by (auto simp: res3 split: sum.splits)
          from "3.IH"(1) [OF Inr res [symmetric] refl Some n] c
          have "dehydratedTree child" by simp
          with attachComponent_frame [OF a] k2 show ?thesis by simp
        qed
        show ?thesis
        proof (cases "finishBinder bd el ei ld i st3")
          case (Inl e)
          with Inr res mid res3 show ?thesis by simp
        next
          case fin: (Inr st4)
          from finishBinder_frame [OF fin] k3
          have k4: "list_all dehydratedTree (st_componentChildViews st4)" by simp
          from "3.IH"(2) [OF Inr res [symmetric] refl mid res3 [symmetric] fin] k4
          have "case instantiateBinders off root ewb host rr bds (Suc i) st4 of
                  Inl e \<Rightarrow> True | Inr st' \<Rightarrow> list_all dehydratedTree (st_componentChildViews st')"
            by simp
          with Inr res mid res3 fin show ?thesis by simp
        qed
      qed
    qed
  qed
qed

text \<open>
  C5, amended. \<^verbatim>\<open>hydrate\<close> on a hydrated view (its context is not \<^verbatim>\<open>null\<close>) throws the
  invalid-state error (``The view is already hydrated.'') before any effect: the view is
  unchanged and nothing is called. On a dehydrated view this check passes: the context is
  set and the record range is given the new context first. The error is then not raised
  when every nested component view is dehydrated too, as it is in every view that
  \<^verbatim>\<open>instantiate\<close> returns.
\<close>

theorem hydrate_invalid_state:
  "(hydrated v \<longrightarrow>
      hydrate a h c v = (Some (BaseException ''The view is already hydrated.''), v, []))
   \<and> (\<not> hydrated v \<longrightarrow>
        context' (fst (snd (hydrate a h c v))) = context' (fst (hydrateContext c v))
        \<and> (\<exists>t. snd (snd (hydrate a h c v)) =
               RecordRange_setContext (recordRange v) (context' (fst (hydrateContext c v))) # t))
   \<and> (dehydratedTree v \<longrightarrow>
        fst (hydrate a h c v) \<noteq> Some (BaseException ''The view is already hydrated.''))
   \<and> (instantiate pv host = Inr (v', t') \<longrightarrow> dehydratedTree v')"
proof -
  have "dehydratedTree v'" if "instantiate pv host = Inr (v', t')"
    using instantiate_dehydratedTree(1) [of pv host] that by simp
  with hydrate_guard [of v a h c] hydrate_passes [of v a h c]
    hydrate_dehydratedTree(1) [of v a h c "''The view is already hydrated.''"]
  show ?thesis by blast
qed

text \<open>
  C5, as the claim states it, fails for a dehydrated view with a hydrated component child
  view. Such a view is what \<^verbatim>\<open>hydrate\<close> with the context \<^verbatim>\<open>null\<close> leaves of a view just
  instantiated from a root proto view: the context of the view is \<^verbatim>\<open>null\<close> and its
  child view has the component as its context. A second \<^verbatim>\<open>hydrate\<close> of that view passes
  the view's own check and throws ``The view is already hydrated.'' from the child view.
\<close>

theorem hydrate_child_counterexample:
  "createRootProtoView exampleNested (Some (Element ''app'' [] [])) exampleComponent =
     Inr exampleRoot
   \<and> map_sum id fst (instantiate exampleRoot None) = Inr (exampleRootView Null Null)
   \<and> fst (hydrate (Some (Injector 0)) None Null (exampleRootView Null Null)) = None
   \<and> fst (snd (hydrate (Some (Injector 0)) None Null (exampleRootView Null Null))) =
       exampleRootView Null (Component exampleAppInjector)
   \<and> \<not> hydrated (exampleRootView Null (Component exampleAppInjector))
   \<and> fst (hydrate (Some (Injector 0)) None (Object 1)
            (exampleRootView Null (Component exampleAppInjector))) =
       Some (BaseException ''The view is already hydrated.'')"
proof -
  have "\<not> hydrated (exampleRootView Null (Component exampleAppInjector))"
    by (simp add: hydrated_def exampleRootView_def)
  moreover have "fst (hydrate (Some (Injector 0)) None (Object 1)
            (exampleRootView Null (Component exampleAppInjector))) =
       Some (BaseException ''The view is already hydrated.'')"
    by (simp add: exampleRoot_def exampleRootView_def exampleNested_def exampleComponent_def
        exampleAppInjector_def hydrateElementInjector_def shadowDomAppInjector_def entryAt_def
        js_nth_def hydrated_def Let_def)
  ultimately show ?thesis
    using exampleRoot_created exampleRoot_instantiate exampleRoot_hydrate_null
    by (simp del: instantiate.simps)
qed

theorem hydrate_invalid_state_witness:
  "hydrated (exampleRootView (Object 1) (Component exampleAppInjector))
   \<and> hydrate (Some (Injector 0)) None (Object 2)
         (exampleRootView (Object 1) (Component exampleAppInjector)) =
       (Some (BaseException ''The view is already hydrated.''),
        exampleRootView (Object 1) (Component exampleAppInjector), [])
   \<and> instantiate exampleRoot None =
       Inr (exampleRootView Null Null,
            [DOM_cloneNode (Element ''p'' [] []),
             RecordRange_addRange (RecordRange []) (RecordRange []),
             ShadowDom_attachTemplate EmulatedShadowDom
               (Some (Element ''app'' [''ng-binding''] [])) [Element ''p'' [] []]])
   \<and> dehydratedTree (exampleRootView Null Null)
   \<and> fst (hydrate (Some (Injector 0)) None (Object 1) (exampleRootView Null Null)) = None
   \<and> fst (snd (hydrate (Some (Injector 0)) None (Object 1) (exampleRootView Null Null))) =
       exampleRootView (Object 1) (Component exampleAppInjector)"
proof -
  have h: "hydrated (exampleRootView (Object 1) (Component exampleAppInjector))"
    by (simp add: hydrated_def exampleRootView_def)
  have ok: "fst (hydrate (Some (Injector 0)) None (Object 1) (exampleRootView Null Null)) = None
   \<and> fst (snd (hydrate (Some (Injector 0)) None (Object 1) (exampleRootView Null Null))) =
       exampleRootView (Object 1) (Component exampleAppInjector)"
    by (simp add: exampleRoot_def exampleRootView_def exampleNested_def exampleComponent_def
        exampleAppInjector_def hydrateElementInjector_def shadowDomAppInjector_def entryAt_def
        js_nth_def hydrated_def Let_def)
  note inst = hydrate_invalid_state [where v = "exampleRootView (Object 1) (Component exampleAppInjector)"
      and a = "Some (Injector 0)" and h = None and c = "Object 2" and pv = exampleRoot
      and host = None and v' = "exampleRootView Null Null"
      and t' = "[DOM_cloneNode (Element ''p'' [] []),
             RecordRange_addRange (RecordRange []) (RecordRange []),
             ShadowDom_attachTemplate EmulatedShadowDom
               (Some (Element ''app'' [''ng-binding''] [])) [Element ''p'' [] []]]"]
  note inst2 = hydrate_invalid_state [where v = "exampleRootView Null Null"
      and a = "Some (Injector 0)" and h = None and c = "Object 1" and pv = exampleRoot
      and host = None and v' = "exampleRootView Null Null"
      and t' = "[DOM_cloneNode (Element ''p'' [] []),
             RecordRange_addRange (RecordRange []) (RecordRange []),
             ShadowDom_attachTemplate EmulatedShadowDom
               (Some (Element ''app'' [''ng-binding''] [])) [Element ''p'' [] []]]"]
  from inst2 exampleRoot_instantiate have d: "dehydratedTree (exampleRootView Null Null)"
    by simp
  from inst h ok d exampleRoot_instantiate show ?thesis by simp
qed

subsection \<open>Setting a local variable\<close>







subsection \<open>The elements of the binders\<close>

lemma elementsOfClass_size: "n \<in> set (elementsOfClass c m) \<Longrightarrow> size n \<le> size m"
proof (induction c m rule: elementsOfClass.induct)
  case (1 c s)
  then show ?case by simp
next
  case (2 c tag cls kids)
  from "2.prems" consider "n = Element tag cls kids"
    | kid where "kid \<in> set kids" "n \<in> set (elementsOfClass c kid)"
    by (auto split: if_splits)
  then show ?case
  proof cases
    case 1
    then show ?thesis by simp
  next
    case 2
    from "2.IH" [OF 2] have "size n \<le> size kid" .
    moreover from 2(1) have "size kid \<le> size_list size kids"
      by (simp add: size_list_estimation')
    ultimately show ?thesis by simp
  qed
next
  case (3 c cls frag)
  then show ?case by (auto split: if_splits)
qed

lemma child_size: "kid \<in> set (DOM_childNodes el) \<Longrightarrow> size kid < size el"
  by (cases el) (auto simp: less_Suc_eq_le size_list_estimation')

lemma content_size: "DOM_content el = Some frag \<Longrightarrow> kid \<in> set frag \<Longrightarrow> size kid < size el"
  by (cases el) (auto simp: less_Suc_eq_le size_list_estimation')

lemma root_not_bound_descendant:
  "instantiateRoot pv = Inr (root, ewb, ns, calls) \<Longrightarrow> root \<notin> set ewb"
proof
  assume r: "instantiateRoot pv = Inr (root, ewb, ns, calls)" and m: "root \<in> set ewb"
  show False
  proof (cases "isTemplateElement pv")
    case True
    with r obtain frag where f: "DOM_content root = Some frag"
      and e: "ewb = DOM_querySelectorAll frag NG_BINDING_CLASS"
      by (auto simp: instantiateRoot_def Let_def split: option.splits if_splits)
    from m e obtain kid where k: "kid \<in> set frag" "root \<in> set (elementsOfClass NG_BINDING_CLASS kid)"
      by (auto simp: DOM_querySelectorAll_def)
    from elementsOfClass_size [OF k(2)] content_size [OF f k(1)] show False by simp
  next
    case False
    with r have e: "DOM_getElementsByClassName root NG_BINDING_CLASS = Inr ewb"
      by (auto simp: instantiateRoot_def Let_def split: option.splits if_splits sum.splits)
    from m e obtain kid where k: "kid \<in> set (DOM_childNodes root)"
        "root \<in> set (elementsOfClass NG_BINDING_CLASS kid)"
      by (auto simp: DOM_getElementsByClassName_def split: option.splits)
    from elementsOfClass_size [OF k(2)] child_size [OF k(1)] show False by simp
  qed
qed

lemma instantiateBinders_bindElements:
  "instantiateBinders off root ewb host rr bs i st = Inr st' \<Longrightarrow>
     st_elementsWithPropertyBindings st' =
       st_elementsWithPropertyBindings st @
         map (\<lambda>k. resolveElement off root ewb (int (i + k)))
           (filter (\<lambda>k. hasElementPropertyBindings (bs ! k)) [0 ..< length bs])"
proof (induction bs arbitrary: i st)
  case Nil
  then show ?case by simp
next
  case (Cons b bs)
  from Cons.prems obtain el ei st2 where
    s: "startBinder off root ewb host b i st = Inr (el, ei, st2)"
    by (auto split: sum.splits)
  let ?mid = "case componentDirective b of
                None \<Rightarrow> Inr (None, st2)
              | Some d \<Rightarrow>
                  (case nestedProtoView b of
                     None \<Rightarrow> Inl TypeError
                   | Some nested \<Rightarrow>
                       (case instantiate nested ei of
                          Inl e \<Rightarrow> Inl e
                        | Inr (childView, childCalls) \<Rightarrow>
                            Inr (attachComponent d el rr childView childCalls st2)))"
  from Cons.prems s obtain ld st3 st4 where mid: "?mid = Inr (ld, st3)"
    and f: "finishBinder b el ei ld i st3 = Inr st4"
    and r: "instantiateBinders off root ewb host rr bs (Suc i) st4 = Inr st'"
    by (auto split: sum.splits simp del: instantiate.simps)
  from mid have m: "st_elementsWithPropertyBindings st3 = st_elementsWithPropertyBindings st2"
    by (auto simp: attachComponent_def split: sum.splits option.splits prod.splits
        simp del: instantiate.simps)
  note sf = startBinder_frame [OF s]
  note ff = finishBinder_frame [OF f]
  have idx: "filter (\<lambda>k. hasElementPropertyBindings ((b # bs) ! k)) [0 ..< length (b # bs)] =
             (if hasElementPropertyBindings b then [0] else []) @
             map Suc (filter (\<lambda>k. hasElementPropertyBindings (bs ! k)) [0 ..< length bs])"
    by (simp add: upt_rec [of 0] map_Suc_upt [symmetric] filter_map o_def del: upt_Suc)
  from Cons.IH [OF r] sf ff m show ?case
    unfolding idx by (simp add: o_def ac_simps)
qed

lemma startBinder_preBuilt:
  "startBinder off root ewb host b i st = Inr (el, ei, st2) \<Longrightarrow>
     st_preBuiltObjects st2 = st_preBuiltObjects st
     \<and> (ei = None \<longleftrightarrow> protoElementInjector b = None)"
  by (auto simp: startBinder_def instantiateElementInjector_def pushTextNodes_def
      pushPropertyElement_def Let_def split: sum.splits option.splits prod.splits if_splits)

lemma finishBinder_preBuilt:
  "finishBinder b el ei ld i st = Inr st' \<Longrightarrow>
     (ei = None \<longrightarrow> st_preBuiltObjects st' = st_preBuiltObjects st)
     \<and> (ei \<noteq> None \<longrightarrow>
          (\<exists>port. st_preBuiltObjects st' =
             (st_preBuiltObjects st)[i := Some (PreBuiltObjects el port ld)]))"
  by (auto simp: finishBinder_def instantiateViewPort_def setPreBuiltObjects_def attachEvents_def
      Let_def split: sum.splits option.splits prod.splits if_splits)

lemma instantiateBinders_preBuilt:
  "instantiateBinders off root ewb host rr bs i st = Inr st' \<Longrightarrow>
   length (st_preBuiltObjects st) = i + length bs \<Longrightarrow>
     length (st_preBuiltObjects st') = i + length bs
     \<and> (\<forall>j < i. st_preBuiltObjects st' ! j = st_preBuiltObjects st ! j)
     \<and> (\<forall>k < length bs. protoElementInjector (bs ! k) \<noteq> None \<longrightarrow>
           map_option pbo_element (st_preBuiltObjects st' ! (i + k)) =
             Some (resolveElement off root ewb (int (i + k))))"
proof (induction bs arbitrary: i st)
  case Nil
  then show ?case by simp
next
  case (Cons b bs)
  from Cons.prems obtain el ei st2 where
    s: "startBinder off root ewb host b i st = Inr (el, ei, st2)"
    by (auto split: sum.splits)
  let ?mid = "case componentDirective b of
                None \<Rightarrow> Inr (None, st2)
              | Some d \<Rightarrow>
                  (case nestedProtoView b of
                     None \<Rightarrow> Inl TypeError
                   | Some nested \<Rightarrow>
                       (case instantiate nested ei of
                          Inl e \<Rightarrow> Inl e
                        | Inr (childView, childCalls) \<Rightarrow>
                            Inr (attachComponent d el rr childView childCalls st2)))"
  from Cons.prems s obtain ld st3 st4 where mid: "?mid = Inr (ld, st3)"
    and f: "finishBinder b el ei ld i st3 = Inr st4"
    and r: "instantiateBinders off root ewb host rr bs (Suc i) st4 = Inr st'"
    by (auto split: sum.splits simp del: instantiate.simps)
  from mid have m: "st_preBuiltObjects st3 = st_preBuiltObjects st2"
    by (auto simp: attachComponent_def split: sum.splits option.splits prod.splits
        simp del: instantiate.simps)
  note sp = startBinder_preBuilt [OF s]
  note sf = startBinder_frame [OF s]
  note fp = finishBinder_preBuilt [OF f]
  from sp m have p3: "st_preBuiltObjects st3 = st_preBuiltObjects st" by simp
  from fp p3 Cons.prems(2) have len4: "length (st_preBuiltObjects st4) = Suc i + length bs"
    by (cases ei) auto
  note ih = Cons.IH [OF r len4]
  from fp p3 have below: "\<forall>j < i. st_preBuiltObjects st4 ! j = st_preBuiltObjects st ! j"
    by (cases ei) auto
  from fp p3 sp sf Cons.prems(2) have at: "protoElementInjector b \<noteq> None \<longrightarrow>
      map_option pbo_element (st_preBuiltObjects st4 ! i) = Some (resolveElement off root ewb (int i))"
    by (cases ei) auto
  show ?case
  proof (intro conjI allI impI)
    from ih Cons.prems(2) show "length (st_preBuiltObjects st') = i + length (b # bs)" by simp
  next
    fix j assume "j < i"
    with ih below show "st_preBuiltObjects st' ! j = st_preBuiltObjects st ! j" by simp
  next
    fix k assume k: "k < length (b # bs)" and p: "protoElementInjector ((b # bs) ! k) \<noteq> None"
    show "map_option pbo_element (st_preBuiltObjects st' ! (i + k)) =
            Some (resolveElement off root ewb (int (i + k)))"
    proof (cases k)
      case 0
      with p at ih show ?thesis by simp
    next
      case (Suc k')
      with k p ih show ?thesis by simp
    qed
  qed
qed

lemma preBuiltObjects_init: "preBuiltObjects (init a b c d e f g v) = f"
  by (cases v) simp

lemma bindElements_init: "bindElements (init a b c d e f g v) = d"
  by (cases v) simp

text \<open>
  C2. In \<^verbatim>\<open>instantiate\<close> the element of binder \<open>i\<close> is the root clone when \<open>i\<close> is 0 and
  \<open>rootBindingOffset\<close> is 1, and otherwise entry \<open>i - rootBindingOffset\<close> of the bound
  elements found under the root. The view's \<open>bindElements\<close> are these elements of the
  binders that have element property bindings, in the order of the binders, and the
  prebuilt objects of every binder with a proto element injector hold the element of
  that binder. So when \<open>rootBindingOffset\<close> is 1 and the first binder has an element
  property binding, \<open>bindElements[0]\<close> is the root clone, which is none of the bound
  elements found under it. The root clone is the clone of the ProtoView's element, or the
  element itself when the ProtoView is instantiated in place.
\<close>

theorem instantiate_bindElements:
  "(instantiate pv host = Inr (v, t) \<and> instantiateRoot pv = Inr (root, ewb, ns, calls) \<longrightarrow>
      bindElements v =
        Some (map (\<lambda>k. resolveElement (rootBindingOffset pv) root ewb (int k))
                (filter (\<lambda>k. hasElementPropertyBindings (elementBinders pv ! k))
                   [0 ..< length (elementBinders pv)]))
      \<and> (\<exists>objects. preBuiltObjects v = Some objects
             \<and> length objects = length (elementBinders pv)
             \<and> (\<forall>k < length (elementBinders pv).
                   protoElementInjector (elementBinders pv ! k) \<noteq> None \<longrightarrow>
                   map_option pbo_element (objects ! k) =
                     Some (resolveElement (rootBindingOffset pv) root ewb (int k))))
      \<and> (rootBindingOffset pv = 1 \<and> elementBinders pv \<noteq> []
           \<and> hasElementPropertyBindings (hd (elementBinders pv)) \<longrightarrow>
           (\<exists>others. bindElements v = Some (Some root # others)))
      \<and> root \<notin> set ewb
      \<and> Some root = map_option (\<lambda>el. if instantiateInPlace pv then el else DOM_clone el) (element pv))
   \<and> resolveElement off rootElementClone elementsWithBindings i =
       (if i = 0 \<and> off = 1 then Some rootElementClone
        else js_nth elementsWithBindings (i - off))"
proof (intro conjI impI)
  assume a: "instantiate pv host = Inr (v, t) \<and> instantiateRoot pv = Inr (root, ewb, ns, calls)"
  let ?v0 = "View_new pv ns (protoRecordRange pv) (protoContextLocals pv)"
  let ?st0 = "(initialState (length (elementBinders pv)))\<lparr>st_calls := calls\<rparr>"
  from a obtain st where
    loop: "instantiateBinders (rootBindingOffset pv) root ewb host (recordRange ?v0)
             (elementBinders pv) 0 ?st0 = Inr st"
    and v: "bindElements v = Some (st_elementsWithPropertyBindings st)"
    and o: "preBuiltObjects v = Some (st_preBuiltObjects st)"
    by (auto simp: Let_def bindElements_init preBuiltObjects_init split: sum.splits
        simp del: init.simps)
  have "length (st_preBuiltObjects ?st0) = 0 + length (elementBinders pv)"
    by (simp add: initialState_def)
  from instantiateBinders_preBuilt [OF loop this] o
  show "\<exists>objects. preBuiltObjects v = Some objects
             \<and> length objects = length (elementBinders pv)
             \<and> (\<forall>k < length (elementBinders pv).
                   protoElementInjector (elementBinders pv ! k) \<noteq> None \<longrightarrow>
                   map_option pbo_element (objects ! k) =
                     Some (resolveElement (rootBindingOffset pv) root ewb (int k)))"
    by simp
  from instantiateBinders_bindElements [OF loop] v
  show be: "bindElements v =
        Some (map (\<lambda>k. resolveElement (rootBindingOffset pv) root ewb (int k))
                (filter (\<lambda>k. hasElementPropertyBindings (elementBinders pv ! k))
                   [0 ..< length (elementBinders pv)]))"
    by (simp add: initialState_def)
  from a root_not_bound_descendant show "root \<notin> set ewb" by blast
  from a show "Some root = map_option (\<lambda>el. if instantiateInPlace pv then el else DOM_clone el) (element pv)"
    by (auto simp: instantiateRoot_def Let_def split: option.splits if_splits sum.splits)
  assume r: "rootBindingOffset pv = 1 \<and> elementBinders pv \<noteq> []
           \<and> hasElementPropertyBindings (hd (elementBinders pv))"
  then obtain b bs where bs: "elementBinders pv = b # bs" and hb: "hasElementPropertyBindings b"
    by (cases "elementBinders pv") auto
  have flt: "filter (\<lambda>k. hasElementPropertyBindings ((b # bs) ! k)) [0 ..< length (b # bs)] =
          0 # filter (\<lambda>k. hasElementPropertyBindings ((b # bs) ! k)) [Suc 0 ..< length (b # bs)]"
    using hb by (simp add: upt_rec [of 0] del: upt_Suc)
  from be have "bindElements v =
        Some (map (\<lambda>k. resolveElement (rootBindingOffset pv) root ewb (int k))
                (filter (\<lambda>k. hasElementPropertyBindings ((b # bs) ! k)) [0 ..< length (b # bs)]))"
    unfolding bs .
  then have "bindElements v =
        Some (resolveElement (rootBindingOffset pv) root ewb 0 #
              map (\<lambda>k. resolveElement (rootBindingOffset pv) root ewb (int k))
                (filter (\<lambda>k. hasElementPropertyBindings ((b # bs) ! k)) [Suc 0 ..< length (b # bs)]))"
    unfolding flt by simp
  with r show "\<exists>others. bindElements v = Some (Some root # others)"
    by (simp add: resolveElement_def)
next
  show "resolveElement off rootElementClone elementsWithBindings i =
       (if i = 0 \<and> off = 1 then Some rootElementClone
        else js_nth elementsWithBindings (i - off))"
    by (simp add: resolveElement_def)
qed

theorem instantiate_bindElements_witness:
  "instantiate examplePropsProto None = Inr (examplePropsView, [DOM_cloneNode exampleTemplate])
   \<and> instantiateRoot examplePropsProto =
       Inr (exampleTemplate, [exampleSpan], [exampleTemplate], [DOM_cloneNode exampleTemplate])
   \<and> rootBindingOffset examplePropsProto = 1
   \<and> hasElementPropertyBindings (hd (elementBinders examplePropsProto))
   \<and> bindElements examplePropsView = Some [Some exampleTemplate, Some exampleSpan]
   \<and> exampleTemplate \<notin> set [exampleSpan]"
proof -
  note inst = instantiate_bindElements [where pv = examplePropsProto and host = None
      and v = examplePropsView and t = "[DOM_cloneNode exampleTemplate]"
      and root = exampleTemplate and ewb = "[exampleSpan]" and ns = "[exampleTemplate]"
      and calls = "[DOM_cloneNode exampleTemplate]", THEN conjunct1, rule_format,
      OF conjI [OF examplePropsProto_instantiate examplePropsProto_root]]
  have p: "rootBindingOffset examplePropsProto = 1
    \<and> hasElementPropertyBindings (hd (elementBinders examplePropsProto))"
    by (simp add: examplePropsProto_def)
  have b: "bindElements examplePropsView = Some [Some exampleTemplate, Some exampleSpan]"
    by (simp add: examplePropsView_def)
  from inst p b examplePropsProto_instantiate examplePropsProto_root show ?thesis
    by simp
qed

end
